theory Spec2Isabelle
  imports Complex_Main "HOL-Library.AList"
begin

section \<open>Values, documents and replies\<close>

text \<open>
  The server of \<^verbatim>\<open>index.js\<close> moves JSON values between HTTP requests and three MongoDB
  collections. A JSON value is a \<open>json\<close>; \<open>JOid\<close> and \<open>JDate\<close> are the two BSON values
  the server itself creates (\<^verbatim>\<open>new ObjectId(..)\<close>, \<^verbatim>\<open>new Date()\<close>). Numbers are exact
  rationals, an ObjectId is its 24-digit lower-case hex string, a date is its
  millisecond count. An object keeps its members in order, as a JavaScript object and
  a BSON document do.
\<close>

datatype json =
    JNull
  | JBool bool
  | JNum rat
  | JStr string
  | JArr "json list"
  | JObj "(string \<times> json) list"
  | JOid string
  | JDate int

type_synonym doc = "(string \<times> json) list"

text \<open>\<^verbatim>\<open>d.k\<close>: \<open>None\<close> is JavaScript's \<^verbatim>\<open>undefined\<close>.\<close>

definition field_of :: "doc \<Rightarrow> string \<Rightarrow> json option" where
  "field_of d k = map_of d k"

text \<open>JavaScript truthiness of a JSON value, as \<^verbatim>\<open>!x\<close>, \<^verbatim>\<open>if (x)\<close> and \<^verbatim>\<open>x || y\<close> read it.\<close>

fun truthy :: "json \<Rightarrow> bool" where
  "truthy JNull = False"
| "truthy (JBool b) = b"
| "truthy (JNum n) = (n \<noteq> 0)"
| "truthy (JStr s) = (s \<noteq> [])"
| "truthy (JArr xs) = True"
| "truthy (JObj kvs) = True"
| "truthy (JOid i) = True"
| "truthy (JDate t) = True"

text \<open>
  What a handler answers when it does not succeed: \<^verbatim>\<open>res.status(n).send({ error: m })\<close>
  is \<open>Reply n m\<close>; an exception that leaves an \<^verbatim>\<open>async\<close> handler (a rejected database
  call outside \<^verbatim>\<open>try\<close>, a \<^verbatim>\<open>TypeError\<close>) is \<open>Uncaught\<close>, which Express 5 hands to its
  default error handler.
\<close>

datatype failure = Reply nat string | Uncaught

subsection \<open>Strings\<close>

definition lower :: "char \<Rightarrow> char" where
  "lower c = (let n = (of_char c :: nat) in if 65 \<le> n \<and> n \<le> 90 then char_of (n + 32) else c)"

definition startsWith :: "string \<Rightarrow> string \<Rightarrow> bool" where
  "startsWith p s = (take (length p) s = p)"

fun split_on :: "char \<Rightarrow> string \<Rightarrow> string list" where
  "split_on c [] = [[]]"
| "split_on c (x # xs) =
     (if x = c then [] # split_on c xs
      else (case split_on c xs of [] \<Rightarrow> [[x]] | p # ps \<Rightarrow> (x # p) # ps))"

subsection \<open>ObjectId\<close>

text \<open>
  \<^verbatim>\<open>ObjectId.isValid\<close> and \<^verbatim>\<open>new ObjectId\<close> of the \<^verbatim>\<open>bson\<close> package, on strings (route
  parameters always are strings): a string is valid when it is 24 hex digits, and the
  ObjectId it denotes does not depend on the case of the digits.
\<close>

definition is_hex :: "char \<Rightarrow> bool" where
  "is_hex c = (c \<in> set ''0123456789abcdefABCDEF'')"

definition ObjectId_isValid :: "string \<Rightarrow> bool" where
  "ObjectId_isValid s = (length s = 24 \<and> list_all is_hex s)"

definition ObjectId :: "string \<Rightarrow> string" where
  "ObjectId s = map lower s"

section \<open>The database\<close>

text \<open>
  The \<^verbatim>\<open>users\<close> and \<^verbatim>\<open>enrolled-courses\<close> collections hold what \<^verbatim>\<open>POST /users\<close> and
  \<^verbatim>\<open>POST /enroll\<close> write. A member the request left \<^verbatim>\<open>undefined\<close> is stored as
  \<open>JNull\<close> (the driver serialises \<^verbatim>\<open>undefined\<close> as null). Course documents are
  free-form: \<^verbatim>\<open>PUT /courses/:id\<close> sets any member, and older documents carry
  \<^verbatim>\<open>imageUrl\<close> where newer ones carry \<^verbatim>\<open>image\<close>.
\<close>

record user =
  u_id :: string
  u_email :: string
  u_name :: json
  u_photo :: json
  u_role :: json

record enrollment =
  e_id :: string
  e_userEmail :: "string option"
  e_courseId :: string
  e_enrolledAt :: int

record db =
  courses :: "doc list"
  enrolled :: "enrollment list"
  users :: "user list"

text \<open>\<^verbatim>\<open>users.findOne({ email })\<close>; an \<^verbatim>\<open>undefined\<close> email (\<open>None\<close>) is sent as null and
  matches no stored user, every stored email being a string.\<close>

definition findOne_user :: "string option \<Rightarrow> user list \<Rightarrow> user option" where
  "findOne_user q us = find (\<lambda>u. q = Some (u_email u)) us"

section \<open>Authentication and authorisation\<close>

text \<open>The decoded identity token; the handlers read its \<^verbatim>\<open>email\<close> only.\<close>

record claims =
  c_email :: "string option"

text \<open>
  \<^verbatim>\<open>verifyUser\<close>. The identity provider's \<^verbatim>\<open>verifyIdToken\<close> is a parameter: \<open>None\<close> when
  it rejects the token.
\<close>

definition verifyUser :: "(string \<Rightarrow> claims option) \<Rightarrow> string option \<Rightarrow> failure + claims" where
  "verifyUser verifyIdToken authHeader =
     (case authHeader of
        None \<Rightarrow> Inl (Reply 401 ''No token'')
      | Some h \<Rightarrow>
          if \<not> startsWith ''Bearer '' h then Inl (Reply 401 ''No token'')
          else (case split_on CHR '' '' h of
                  _ # token # _ \<Rightarrow>
                    (case verifyIdToken token of
                       Some decoded \<Rightarrow> Inr decoded
                     | None \<Rightarrow> Inl (Reply 403 ''Invalid token''))
                | _ \<Rightarrow> Inl (Reply 403 ''Invalid token'')))"

text \<open>\<^verbatim>\<open>checkRole(requiredRole)\<close>; \<open>Inr ()\<close> is \<^verbatim>\<open>next()\<close>.\<close>

definition checkRole :: "string \<Rightarrow> db \<Rightarrow> claims \<Rightarrow> failure + unit" where
  "checkRole requiredRole d usr =
     (case findOne_user (c_email usr) (users d) of
        None \<Rightarrow> Inl (Reply 403 ''User not found'')
      | Some found \<Rightarrow>
          if u_role found = JStr requiredRole then Inr ()
          else Inl (Reply 403 ''Forbidden: wrong role''))"

text \<open>
  A route registered as \<^verbatim>\<open>app.METHOD(path, verifyUser, checkRole(r), handler)\<close>: the
  handler runs only when both middlewares called \<^verbatim>\<open>next()\<close>.
\<close>

definition gated ::
  "(string \<Rightarrow> claims option) \<Rightarrow> string \<Rightarrow> string option \<Rightarrow>
   (claims \<Rightarrow> db \<Rightarrow> (failure + 'a) \<times> db) \<Rightarrow> db \<Rightarrow> (failure + 'a) \<times> db" where
  "gated verifyIdToken requiredRole authHeader handler d =
     (case verifyUser verifyIdToken authHeader of
        Inl f \<Rightarrow> (Inl f, d)
      | Inr usr \<Rightarrow>
          (case checkRole requiredRole d usr of
             Inl f \<Rightarrow> (Inl f, d)
           | Inr _ \<Rightarrow> handler usr d))"

section \<open>The user endpoint\<close>

text \<open>
  The body of \<^verbatim>\<open>POST /users\<close> as its handler destructures it: \<open>None\<close> is a member the
  body does not have. The embedding covers the bodies whose \<^verbatim>\<open>email\<close>, when they have
  one, is a JSON string (\<open>b_email\<close>); the other members are stored as they come.
\<close>

record users_body =
  b_email :: "string option"
  b_name :: "json option"
  b_photo :: "json option"
  b_role :: "json option"

datatype users_reply = Existing user | Inserted string

text \<open>The driver writes a member that is \<^verbatim>\<open>undefined\<close> as null.\<close>

definition stored :: "json option \<Rightarrow> json" where
  "stored v = (case v of None \<Rightarrow> JNull | Some x \<Rightarrow> x)"

text \<open>
  \<^verbatim>\<open>users.insertOne(doc)\<close>: \<open>newId\<close> is the \<^verbatim>\<open>_id\<close> the driver generates for the
  document. The collection's unique index on \<^verbatim>\<open>_id\<close> rejects an id already stored, and
  the rejection leaves the handler as an exception.
\<close>

definition insertOne_user :: "user \<Rightarrow> user list \<Rightarrow> failure + user list" where
  "insertOne_user u us =
     (if list_ex (\<lambda>x. u_id x = u_id u) us then Inl Uncaught else Inr (us @ [u]))"

text \<open>
  \<^verbatim>\<open>app.post('/users', ...)\<close>. The route has no middleware. \<open>body = None\<close> is a request
  without a parsed JSON body: Express 5 leaves \<^verbatim>\<open>req.body\<close> undefined and the
  destructuring throws. The default \<^verbatim>\<open>role = 'student'\<close> applies to a missing member
  only.
\<close>

definition post_users :: "users_body option \<Rightarrow> string \<Rightarrow> db \<Rightarrow> (failure + users_reply) \<times> db" where
  "post_users body newId d =
     (case body of
        None \<Rightarrow> (Inl Uncaught, d)
      | Some b \<Rightarrow>
          (let role = (case b_role b of None \<Rightarrow> JStr ''student'' | Some r \<Rightarrow> r) in
           case b_email b of
             None \<Rightarrow> (Inl (Reply 400 ''Email required''), d)
           | Some email \<Rightarrow>
               if email = [] then (Inl (Reply 400 ''Email required''), d)
               else (case findOne_user (Some email) (users d) of
                       Some existing \<Rightarrow> (Inr (Existing existing), d)
                     | None \<Rightarrow>
                         (case insertOne_user
                                 \<lparr>u_id = newId, u_email = email, u_name = stored (b_name b),
                                  u_photo = stored (b_photo b), u_role = role\<rparr> (users d) of
                            Inl f \<Rightarrow> (Inl f, d)
                          | Inr us \<Rightarrow> (Inr (Inserted newId), d\<lparr>users := us\<rparr>)))))"

section \<open>The enrollment endpoints\<close>

text \<open>The body of \<^verbatim>\<open>POST /enroll\<close>: its \<^verbatim>\<open>courseId\<close> member when that is a JSON string.\<close>

record enroll_body =
  b_courseId :: "string option"

definition insertOne_enrollment :: "enrollment \<Rightarrow> enrollment list \<Rightarrow> failure + enrollment list" where
  "insertOne_enrollment e es =
     (if list_ex (\<lambda>x. e_id x = e_id e) es then Inl Uncaught else Inr (es @ [e]))"

text \<open>
  \<^verbatim>\<open>enrolled.findOne({ userEmail, courseId: new ObjectId(courseId) })\<close>. A token without
  an email gives \<^verbatim>\<open>userEmail = undefined\<close>, which is written and queried as null.
\<close>

definition same_pair :: "string option \<Rightarrow> string \<Rightarrow> enrollment \<Rightarrow> bool" where
  "same_pair userEmail oid e = (e_userEmail e = userEmail \<and> e_courseId e = oid)"

text \<open>
  The handler of \<^verbatim>\<open>app.post('/enroll', verifyUser, checkRole('student'), ...)\<close>; \<open>now\<close> is
  \<^verbatim>\<open>new Date()\<close> and \<open>newId\<close> the generated \<^verbatim>\<open>_id\<close>.
\<close>

definition post_enroll ::
  "enroll_body option \<Rightarrow> int \<Rightarrow> string \<Rightarrow> claims \<Rightarrow> db \<Rightarrow> (failure + string) \<times> db" where
  "post_enroll body now newId usr d =
     (case body of
        None \<Rightarrow> (Inl Uncaught, d)
      | Some b \<Rightarrow>
          (let userEmail = c_email usr in
           case b_courseId b of
             None \<Rightarrow> (Inl (Reply 400 ''courseId required''), d)
           | Some courseId \<Rightarrow>
               if courseId = [] then (Inl (Reply 400 ''courseId required''), d)
               else if \<not> ObjectId_isValid courseId then (Inl (Reply 400 ''Invalid courseId''), d)
               else (case find (same_pair userEmail (ObjectId courseId)) (enrolled d) of
                       Some already \<Rightarrow> (Inl (Reply 409 ''Already enrolled''), d)
                     | None \<Rightarrow>
                         (case insertOne_enrollment
                                 \<lparr>e_id = newId, e_userEmail = userEmail,
                                  e_courseId = ObjectId courseId, e_enrolledAt = now\<rparr>
                                 (enrolled d) of
                            Inl f \<Rightarrow> (Inl f, d)
                          | Inr es \<Rightarrow> (Inr newId, d\<lparr>enrolled := es\<rparr>)))))"

text \<open>
  The aggregation of \<^verbatim>\<open>GET /enrolled\<close>, stage by stage. \<^verbatim>\<open>$lookup\<close> collects the courses
  whose \<^verbatim>\<open>_id\<close> is the enrollment's \<^verbatim>\<open>courseId\<close>; \<^verbatim>\<open>$unwind\<close> gives one document per
  collected course, none when there is no such course; \<^verbatim>\<open>$project\<close> keeps \<^verbatim>\<open>_id\<close>,
  \<^verbatim>\<open>enrolledAt\<close> and \<^verbatim>\<open>course\<close>.
\<close>

definition has_id :: "string \<Rightarrow> doc \<Rightarrow> bool" where
  "has_id oid c = (field_of c ''_id'' = Some (JOid oid))"

definition lookup_courses :: "doc list \<Rightarrow> enrollment \<Rightarrow> doc list" where
  "lookup_courses cs e = filter (has_id (e_courseId e)) cs"

definition project_entry :: "enrollment \<Rightarrow> doc \<Rightarrow> doc" where
  "project_entry e c =
     [(''_id'', JOid (e_id e)), (''enrolledAt'', JDate (e_enrolledAt e)), (''course'', JObj c)]"

definition get_enrolled :: "claims \<Rightarrow> db \<Rightarrow> (failure + doc list) \<times> db" where
  "get_enrolled usr d =
     (let matched = filter (\<lambda>e. e_userEmail e = c_email usr) (enrolled d);
          unwound = concat (map (\<lambda>e. map (project_entry e) (lookup_courses (courses d) e)) matched)
      in (Inr unwound, d))"

section \<open>Course documents in the database\<close>

fun show_nat :: "nat \<Rightarrow> string" where
  "show_nat n =
     (if n < 10 then [char_of (48 + n)] else show_nat (n div 10) @ [char_of (48 + n mod 10)])"

declare show_nat.simps [simp del]

text \<open>
  \<^verbatim>\<open>{ ...payload }\<close>: the own enumerable members of the body. \<^verbatim>\<open>express.json()\<close> in its
  default strict mode hands over an object or an array; without a parsed body
  \<^verbatim>\<open>req.body\<close> is \<^verbatim>\<open>undefined\<close> (\<open>None\<close>), which spreads to nothing, as null, numbers
  and booleans do. An array spreads to its elements under their indices.
\<close>

fun index_keys :: "nat \<Rightarrow> json list \<Rightarrow> doc" where
  "index_keys i [] = []"
| "index_keys i (x # xs) = (show_nat i, x) # index_keys (Suc i) xs"

definition spread :: "json option \<Rightarrow> doc" where
  "spread payload =
     (case payload of
        Some (JObj kvs) \<Rightarrow> kvs
      | Some (JArr xs) \<Rightarrow> index_keys 0 xs
      | Some (JStr s) \<Rightarrow> index_keys 0 (map (\<lambda>c. JStr [c]) s)
      | _ \<Rightarrow> [])"

text \<open>
  \<^verbatim>\<open>courses.insertOne(doc)\<close>. The driver gives a document whose \<^verbatim>\<open>_id\<close> is missing or
  null the generated id \<open>newId\<close>; the stored document has \<^verbatim>\<open>_id\<close> as its first member.
  An \<^verbatim>\<open>_id\<close> already in the collection is rejected by the unique index.
\<close>

definition has_key_id :: "json \<Rightarrow> doc \<Rightarrow> bool" where
  "has_key_id i c = (field_of c ''_id'' = Some i)"

definition insertOne_course :: "string \<Rightarrow> doc \<Rightarrow> doc list \<Rightarrow> failure + (json \<times> doc list)" where
  "insertOne_course newId document cs =
     (let i = (case field_of document ''_id'' of
                 None \<Rightarrow> JOid newId
               | Some JNull \<Rightarrow> JOid newId
               | Some v \<Rightarrow> v)
      in if list_ex (has_key_id i) cs then Inl Uncaught
         else Inr (i, cs @ [(''_id'', i) # AList.delete ''_id'' document]))"


section \<open>Validation of a course payload\<close>

text \<open>
  \<^verbatim>\<open>courseSchema\<close> is a value built with the Joi library; the library itself is not part
  of the repository. A schema is data here, and \<open>validate\<close> reads it the way
  \<^verbatim>\<open>schema.validate(payload)\<close> does under Joi's default preferences: keys are checked
  in the order the schema lists them, the first error ends the validation
  (\<^verbatim>\<open>abortEarly\<close>), keys the schema does not list are refused after the listed keys were
  checked, strings are read as numbers and booleans where the schema asks for those
  (\<^verbatim>\<open>convert\<close>), and \<^verbatim>\<open>undefined\<close> passes every schema that is not \<^verbatim>\<open>required()\<close>.
  Joi's own syntax checks for URIs and email addresses and its reading of a string as
  a number are parameters (\<open>joi_lib\<close>); \<open>number_of\<close> gives \<open>None\<close> for a string that is
  no number, \<open>Inl\<close> the error text when Joi refuses the number it read, \<open>Inr\<close> the number.
\<close>

record joi_lib =
  is_uri :: "string \<Rightarrow> bool"
  is_email :: "string \<Rightarrow> bool"
  number_of :: "string \<Rightarrow> (string + rat) option"

datatype rule = Uri | Email

datatype presence = Required | Optional

datatype leaf =
    JoiString presence "rule list" "json list"
  | JoiNumber presence "nat option"
  | JoiBoolean presence

datatype key_schema = Leaf leaf | Keys presence "(string \<times> leaf) list"

type_synonym object_schema = "(string \<times> key_schema) list"

text \<open>The schema of the source, key by key: \<open>JoiString p rules allowed\<close> is
  \<^verbatim>\<open>Joi.string()\<close> with its rules and its \<^verbatim>\<open>allow(..)\<close> list, \<open>JoiNumber p (Some 0)\<close> is
  \<^verbatim>\<open>Joi.number().min(0)\<close>, \<open>Keys\<close> is a nested \<^verbatim>\<open>Joi.object({..})\<close>.\<close>

definition courseSchema :: object_schema where
  "courseSchema =
     [(''title'', Leaf (JoiString Required [] [])),
      (''image'', Leaf (JoiString Required [Uri] [])),
      (''price'', Leaf (JoiNumber Required (Some 0))),
      (''duration'', Leaf (JoiString Required [] [])),
      (''category'', Leaf (JoiString Required [] [])),
      (''description'', Leaf (JoiString Required [] [])),
      (''isFeatured'', Leaf (JoiBoolean Optional)),
      (''instructor'', Keys Required
         [(''name'', JoiString Required [] []),
          (''email'', JoiString Required [Email] []),
          (''photo'', JoiString Optional [Uri] [JStr ''''])])]"

type_synonym violation = "string list \<times> string"

definition check_presence :: "presence \<Rightarrow> string option" where
  "check_presence p = (if p = Required then Some ''is required'' else None)"

fun check_rules :: "joi_lib \<Rightarrow> rule list \<Rightarrow> string \<Rightarrow> string option" where
  "check_rules lib [] s = None"
| "check_rules lib (Uri # rs) s =
     (if is_uri lib s then check_rules lib rs s else Some ''must be a valid uri'')"
| "check_rules lib (Email # rs) s =
     (if is_email lib s then check_rules lib rs s else Some ''must be a valid email'')"

definition check_number :: "nat option \<Rightarrow> rat \<Rightarrow> string option" where
  "check_number lowest n =
     (if n > 9007199254740991 \<or> n < - 9007199254740991 then Some ''must be a safe number''
      else (case lowest of
              None \<Rightarrow> None
            | Some m \<Rightarrow>
                if n < of_nat m then Some (''must be greater than or equal to '' @ show_nat m)
                else None))"

text \<open>One value against one schema: the text of the first error, \<open>None\<close> when the value
  passes. \<open>v = None\<close> is a key the object does not have.\<close>

fun check_leaf :: "joi_lib \<Rightarrow> leaf \<Rightarrow> json option \<Rightarrow> string option" where
  "check_leaf lib (JoiString p rules allowed) v =
     (case v of
        None \<Rightarrow> check_presence p
      | Some x \<Rightarrow>
          if x \<in> set allowed then None
          else (case x of
                  JStr s \<Rightarrow>
                    if s = [] then Some ''is not allowed to be empty'' else check_rules lib rules s
                | _ \<Rightarrow> Some ''must be a string''))"
| "check_leaf lib (JoiNumber p lowest) v =
     (case v of
        None \<Rightarrow> check_presence p
      | Some (JNum n) \<Rightarrow> check_number lowest n
      | Some (JStr s) \<Rightarrow>
          (case number_of lib s of
             None \<Rightarrow> Some ''must be a number''
           | Some (Inl text) \<Rightarrow> Some text
           | Some (Inr n) \<Rightarrow> check_number lowest n)
      | Some _ \<Rightarrow> Some ''must be a number'')"
| "check_leaf lib (JoiBoolean p) v =
     (case v of
        None \<Rightarrow> check_presence p
      | Some (JBool b) \<Rightarrow> None
      | Some (JStr s) \<Rightarrow>
          if map lower s = ''true'' \<or> map lower s = ''false'' then None
          else Some ''must be a boolean''
      | Some _ \<Rightarrow> Some ''must be a boolean'')"

text \<open>The loop over the keys of a nested object, left at the first error.\<close>

fun first_leaf_error ::
  "joi_lib \<Rightarrow> string list \<Rightarrow> (string \<times> leaf) list \<Rightarrow> doc \<Rightarrow> violation option" where
  "first_leaf_error lib pre [] d = None"
| "first_leaf_error lib pre ((k, s) # rest) d =
     (case check_leaf lib s (field_of d k) of
        Some text \<Rightarrow> Some (pre @ [k], text)
      | None \<Rightarrow> first_leaf_error lib pre rest d)"

definition first_unknown :: "string list \<Rightarrow> string list \<Rightarrow> doc \<Rightarrow> violation option" where
  "first_unknown pre known d =
     (case find (\<lambda>k. k \<notin> set known) (map fst d) of
        None \<Rightarrow> None
      | Some k \<Rightarrow> Some (pre @ [k], ''is not allowed''))"

definition validate_nested ::
  "joi_lib \<Rightarrow> string list \<Rightarrow> presence \<Rightarrow> (string \<times> leaf) list \<Rightarrow> json option \<Rightarrow> violation option" where
  "validate_nested lib pre p ks v =
     (case v of
        None \<Rightarrow> map_option (Pair pre) (check_presence p)
      | Some (JObj kvs) \<Rightarrow>
          (case first_leaf_error lib pre ks kvs of
             Some e \<Rightarrow> Some e
           | None \<Rightarrow> first_unknown pre (map fst ks) kvs)
      | Some _ \<Rightarrow> Some (pre, ''must be of type object''))"

definition check_key :: "joi_lib \<Rightarrow> string \<Rightarrow> key_schema \<Rightarrow> doc \<Rightarrow> violation option" where
  "check_key lib k s d =
     (case s of
        Leaf l \<Rightarrow> map_option (Pair [k]) (check_leaf lib l (field_of d k))
      | Keys p ks \<Rightarrow> validate_nested lib [k] p ks (field_of d k))"

fun first_key_error :: "joi_lib \<Rightarrow> object_schema \<Rightarrow> doc \<Rightarrow> violation option" where
  "first_key_error lib [] d = None"
| "first_key_error lib ((k, s) # rest) d =
     (case check_key lib k s d of
        Some e \<Rightarrow> Some e
      | None \<Rightarrow> first_key_error lib rest d)"

text \<open>\<^verbatim>\<open>schema.validate(payload).error\<close>, as the path and the text of its first detail.\<close>

definition validate :: "joi_lib \<Rightarrow> object_schema \<Rightarrow> json option \<Rightarrow> violation option" where
  "validate lib schema payload =
     (case payload of
        None \<Rightarrow> None
      | Some (JObj kvs) \<Rightarrow>
          (case first_key_error lib schema kvs of
             Some e \<Rightarrow> Some e
           | None \<Rightarrow> first_unknown [] (map fst schema) kvs)
      | Some _ \<Rightarrow> Some ([], ''must be of type object''))"

text \<open>\<^verbatim>\<open>error.details[0].message\<close>: the label of the path in double quotes, then the
  text. The label of a nested key joins the path with dots; the payload itself is
  labelled \<^verbatim>\<open>value\<close>.\<close>

fun join_dot :: "string list \<Rightarrow> string" where
  "join_dot [] = []"
| "join_dot [x] = x"
| "join_dot (x # y # rest) = x @ ''.'' @ join_dot (y # rest)"

definition label :: "string list \<Rightarrow> string" where
  "label path = (if path = [] then ''value'' else join_dot path)"

definition message :: "string list \<Rightarrow> string \<Rightarrow> string" where
  "message path text = CHR 0x22 # label path @ [CHR 0x22, CHR '' ''] @ text"
















text \<open>
  The handler of \<^verbatim>\<open>app.post('/courses', verifyUser, checkRole('instructor'), ...)\<close>. It
  validates the payload and stores the payload as it came (not Joi's converted value)
  with \<^verbatim>\<open>createdAt\<close> set.
\<close>

definition post_courses ::
  "joi_lib \<Rightarrow> json option \<Rightarrow> int \<Rightarrow> string \<Rightarrow> db \<Rightarrow> (failure + json) \<times> db" where
  "post_courses lib payload now newId d =
     (case validate lib courseSchema payload of
        Some (path, text) \<Rightarrow> (Inl (Reply 400 (message path text)), d)
      | None \<Rightarrow>
          (case insertOne_course newId
                  (AList.update ''createdAt'' (JDate now) (spread payload)) (courses d) of
             Inl f \<Rightarrow> (Inl f, d)
           | Inr (i, cs) \<Rightarrow> (Inr i, d\<lparr>courses := cs\<rparr>)))"


section \<open>Updating a course\<close>

text \<open>
  A key of \<^verbatim>\<open>{ $set: patch }\<close> is a path: its parts, separated by dots, lead through
  embedded documents to the member that is set. The embedding interprets the paths
  whose parts are not empty, do not start with \<^verbatim>\<open>$\<close> and hold no NUL, in patches where
  no path is the beginning of another. Any other patch is not interpreted (\<open>None\<close>
  below): MongoDB has operators and errors of its own for those.
\<close>

definition part_ok :: "string \<Rightarrow> bool" where
  "part_ok k = (k \<noteq> [] \<and> take 1 k \<noteq> ''$'' \<and> \<not> list_ex (\<lambda>c. c = CHR 0x00) k)"

definition path_of :: "string \<Rightarrow> string list" where
  "path_of k = split_on CHR ''.'' k"

definition begins :: "string list \<Rightarrow> string list \<Rightarrow> bool" where
  "begins p q = (take (length p) q = p)"

fun no_conflicts :: "string list list \<Rightarrow> bool" where
  "no_conflicts [] = True"
| "no_conflicts (p # ps) =
     (list_all (\<lambda>q. \<not> begins p q \<and> \<not> begins q p) ps \<and> no_conflicts ps)"

definition interpreted :: "doc \<Rightarrow> bool" where
  "interpreted patch =
     (list_all (\<lambda>kv. list_all part_ok (path_of (fst kv))) patch \<and>
      no_conflicts (map (\<lambda>kv. path_of (fst kv)) patch))"

text \<open>
  One path on one document. A member at the end of the path is overwritten where it
  stands or appended. A part that the document does not have is created as an
  embedded document; a part that is neither missing nor an object cannot be entered
  and the server rejects the update, and a part that is an array is not interpreted
  here. New members are appended in the order of the patch (MongoDB appends them in
  the order of their names): nothing below depends on the position of a member.
\<close>

fun nest :: "string list \<Rightarrow> json \<Rightarrow> json" where
  "nest [] v = v"
| "nest (k # ks) v = JObj [(k, nest ks v)]"

fun set_path :: "string list \<Rightarrow> json \<Rightarrow> doc \<Rightarrow> (failure + doc) option" where
  "set_path [] v document = None"
| "set_path [k] v document = Some (Inr (AList.update k v document))"
| "set_path (k # k' # ks) v document =
     (case field_of document k of
        None \<Rightarrow> Some (Inr (document @ [(k, nest (k' # ks) v)]))
      | Some (JObj sub) \<Rightarrow>
          (case set_path (k' # ks) v sub of
             Some (Inr sub') \<Rightarrow> Some (Inr (AList.update k (JObj sub') document))
           | other \<Rightarrow> other)
      | Some (JArr xs) \<Rightarrow> None
      | Some _ \<Rightarrow> Some (Inl Uncaught))"

text \<open>\<^verbatim>\<open>_id\<close> is immutable: a \<^verbatim>\<open>$set\<close> that would change it is rejected by the server.\<close>

definition set_member :: "string \<Rightarrow> json \<Rightarrow> doc \<Rightarrow> (failure + doc) option" where
  "set_member k v document =
     (if k = ''_id'' then
        (if field_of document ''_id'' = Some v then Some (Inr document) else Some (Inl Uncaught))
      else set_path (path_of k) v document)"

fun set_fields :: "doc \<Rightarrow> doc \<Rightarrow> (failure + doc) option" where
  "set_fields [] document = Some (Inr document)"
| "set_fields ((k, v) # patch) document =
     (case set_member k v document of
        Some (Inr document') \<Rightarrow> set_fields patch document'
      | other \<Rightarrow> other)"

text \<open>\<^verbatim>\<open>courses.updateOne({ _id: oid }, { $set: patch })\<close>: the first document with the
  id is updated, or none when the update is rejected. The result is \<^verbatim>\<open>matchedCount\<close>,
  \<^verbatim>\<open>modifiedCount\<close> and the collection.\<close>

fun update_first ::
  "string \<Rightarrow> doc \<Rightarrow> doc list \<Rightarrow> (failure + (nat \<times> nat \<times> doc list)) option" where
  "update_first oid patch [] = Some (Inr (0, 0, []))"
| "update_first oid patch (c # cs) =
     (if has_id oid c then
        (case set_fields patch c of
           None \<Rightarrow> None
         | Some (Inl f) \<Rightarrow> Some (Inl f)
         | Some (Inr c') \<Rightarrow> Some (Inr (1, if c' = c then 0 else 1, c' # cs)))
      else (case update_first oid patch cs of
              Some (Inr (matched, modified, cs')) \<Rightarrow> Some (Inr (matched, modified, c # cs'))
            | other \<Rightarrow> other))"

definition updateOne_set ::
  "string \<Rightarrow> doc \<Rightarrow> doc list \<Rightarrow> (failure + (nat \<times> nat \<times> doc list)) option" where
  "updateOne_set oid patch cs = (if interpreted patch then update_first oid patch cs else None)"

text \<open>The handler of \<^verbatim>\<open>app.put('/courses/:id', verifyUser, checkRole('instructor'), ...)\<close>.
  The payload is not validated. The answer is \<open>None\<close> where the patch is not
  interpreted.\<close>

definition put_course ::
  "string \<Rightarrow> json option \<Rightarrow> int \<Rightarrow> db \<Rightarrow> ((failure + nat) \<times> db) option" where
  "put_course cid payload now d =
     (if \<not> ObjectId_isValid cid then Some (Inl (Reply 400 ''Invalid id''), d)
      else (case updateOne_set (ObjectId cid)
                   (AList.update ''updatedAt'' (JDate now) (spread payload)) (courses d) of
              None \<Rightarrow> None
            | Some (Inl f) \<Rightarrow> Some (Inl f, d)
            | Some (Inr (matched, modified, cs)) \<Rightarrow>
                if matched = 0 then Some (Inl (Reply 404 ''Course not found''), d)
                else Some (Inr modified, d\<lparr>courses := cs\<rparr>)))"


section \<open>Query helpers\<close>

text \<open>
  The filter \<^verbatim>\<open>{ k: q }\<close> with a scalar \<open>q\<close>, on the value a document has under \<open>k\<close>
  (\<open>None\<close> when it has none): MongoDB matches an equal value, and an array that holds
  an equal element; a null query also matches a missing member.
\<close>

definition eq_filter :: "json \<Rightarrow> json option \<Rightarrow> bool" where
  "eq_filter q v =
     (case v of
        None \<Rightarrow> q = JNull
      | Some (JArr xs) \<Rightarrow> list_ex (\<lambda>x. x = q) xs
      | Some x \<Rightarrow> x = q)"

text \<open>
  The filter \<^verbatim>\<open>{ k: { $regex: pattern, $options: options } }\<close>. The server's regular
  expression engine is a parameter \<open>regex\<close>: \<open>regex pattern options\<close> is \<open>None\<close> when the
  pattern does not compile (the query is rejected) and otherwise the test whether the
  pattern is found somewhere in a string, under the options (\<^verbatim>\<open>i\<close>: letter case is
  ignored). Only strings are tested.
\<close>

definition regex_filter :: "(string \<Rightarrow> bool) \<Rightarrow> json option \<Rightarrow> bool" where
  "regex_filter m v =
     (case v of
        Some (JStr s) \<Rightarrow> m s
      | Some (JArr xs) \<Rightarrow> list_ex (\<lambda>x. case x of JStr s \<Rightarrow> m s | _ \<Rightarrow> False) xs
      | _ \<Rightarrow> False)"

text \<open>
  JavaScript's \<^verbatim>\<open>parseInt(string, radix)\<close>, with \<open>radix = 0\<close> for a call without radix;
  \<open>None\<close> is \<^verbatim>\<open>NaN\<close>. Leading white space is skipped (the ASCII white space; strings
  are bytes here), a sign is read, \<^verbatim>\<open>0x\<close> selects radix 16 when the radix is open, and
  the longest run of digits is the value: what follows the digits is ignored. The
  value is exact, as a JavaScript number is below \<open>2 ^ 53\<close>.
\<close>

definition js_space :: "char \<Rightarrow> bool" where
  "js_space c = ((of_char c :: nat) \<in> {9, 10, 11, 12, 13, 32})"

definition digit_value :: "char \<Rightarrow> nat option" where
  "digit_value c =
     (let n = (of_char c :: nat) in
      if 48 \<le> n \<and> n \<le> 57 then Some (n - 48)
      else if 97 \<le> n \<and> n \<le> 122 then Some (n - 87)
      else if 65 \<le> n \<and> n \<le> 90 then Some (n - 55)
      else None)"

fun leading_digits :: "nat \<Rightarrow> string \<Rightarrow> nat list" where
  "leading_digits r [] = []"
| "leading_digits r (c # cs) =
     (case digit_value c of
        None \<Rightarrow> []
      | Some v \<Rightarrow> if v < r then v # leading_digits r cs else [])"

definition parseInt :: "string \<Rightarrow> nat \<Rightarrow> int option" where
  "parseInt str radix =
     (let s = dropWhile js_space str;
          negative = (take 1 s = ''-'');
          s1 = (if take 1 s = ''-'' \<or> take 1 s = ''+'' then drop 1 s else s);
          hex = ((radix = 0 \<or> radix = 16) \<and> (take 2 s1 = ''0x'' \<or> take 2 s1 = ''0X''));
          r = (if hex then 16 else if radix = 0 then 10 else radix);
          ds = leading_digits r (if hex then drop 2 s1 else s1)
      in if radix \<noteq> 0 \<and> (radix < 2 \<or> 36 < radix) then None
         else if ds = [] then None
         else Some ((if negative then - 1 else 1) * int (foldl (\<lambda>a v. a * r + v) 0 ds)))"

text \<open>
  What a \<^verbatim>\<open>find\<close> cursor with \<^verbatim>\<open>.skip(s).limit(l)\<close> delivers of the matching documents
  \<open>xs\<close>. The server rejects the command (\<open>None\<close>) when either number is \<^verbatim>\<open>NaN\<close> or the
  skip is negative. A limit of 0 is no limit; a negative limit \<open>- n\<close> asks for \<open>n\<close>
  documents in a single batch.
\<close>

definition window :: "int option \<Rightarrow> int option \<Rightarrow> 'a list \<Rightarrow> 'a list option" where
  "window skip limit xs =
     (case skip of
        None \<Rightarrow> None
      | Some s \<Rightarrow>
          (case limit of
             None \<Rightarrow> None
           | Some l \<Rightarrow>
               if s < 0 then None
               else if l = 0 then Some (drop (nat s) xs)
               else Some (take (nat \<bar>l\<bar>) (drop (nat s) xs))))"

section \<open>Listing courses\<close>

text \<open>The query string of \<^verbatim>\<open>GET /all-courses\<close>; each parameter given at most once.\<close>

record list_query =
  q_category :: "string option"
  q_search :: "string option"
  q_page :: "string option"
  q_limit :: "string option"

text \<open>\<^verbatim>\<open>if (category) q.category = category\<close>.\<close>

definition category_test :: "list_query \<Rightarrow> doc \<Rightarrow> bool" where
  "category_test q c =
     (case q_category q of
        None \<Rightarrow> True
      | Some cat \<Rightarrow> if cat = [] then True else eq_filter (JStr cat) (field_of c ''category''))"

text \<open>\<^verbatim>\<open>if (search) q.title = { $regex: search, $options: 'i' }\<close>; \<open>None\<close> when the
  search text does not compile.\<close>

definition title_test ::
  "(string \<Rightarrow> string \<Rightarrow> (string \<Rightarrow> bool) option) \<Rightarrow> list_query \<Rightarrow> (doc \<Rightarrow> bool) option" where
  "title_test regex q =
     (case q_search q of
        None \<Rightarrow> Some (\<lambda>c. True)
      | Some s \<Rightarrow>
          if s = [] then Some (\<lambda>c. True)
          else map_option (\<lambda>m c. regex_filter m (field_of c ''title'')) (regex s ''i''))"

text \<open>\<^verbatim>\<open>parseInt(page)\<close> and \<^verbatim>\<open>parseInt(limit)\<close> with the defaults \<^verbatim>\<open>page = 1\<close> and
  \<^verbatim>\<open>limit = 100\<close> of the destructuring, which stand in for a missing parameter only.\<close>

definition page_of :: "list_query \<Rightarrow> int option" where
  "page_of q = (case q_page q of None \<Rightarrow> Some 1 | Some s \<Rightarrow> parseInt s 0)"

definition limit_of :: "list_query \<Rightarrow> int option" where
  "limit_of q = (case q_limit q of None \<Rightarrow> Some 100 | Some s \<Rightarrow> parseInt s 0)"

definition skip_of :: "list_query \<Rightarrow> int option" where
  "skip_of q =
     (case page_of q of
        None \<Rightarrow> None
      | Some p \<Rightarrow> (case limit_of q of None \<Rightarrow> None | Some l \<Rightarrow> Some ((p - 1) * l)))"

text \<open>\<^verbatim>\<open>app.get('/all-courses', ...)\<close>. The database call is not inside a \<^verbatim>\<open>try\<close>.\<close>

definition get_all_courses ::
  "(string \<Rightarrow> string \<Rightarrow> (string \<Rightarrow> bool) option) \<Rightarrow> list_query \<Rightarrow> db \<Rightarrow>
   (failure + doc list) \<times> db" where
  "get_all_courses regex q d =
     (case title_test regex q of
        None \<Rightarrow> (Inl Uncaught, d)
      | Some t \<Rightarrow>
          (case window (skip_of q) (limit_of q)
                  (filter (\<lambda>c. category_test q c \<and> t c) (courses d)) of
             None \<Rightarrow> (Inl Uncaught, d)
           | Some list \<Rightarrow> (Inr list, d)))"

text \<open>
  A regular expression engine for the patterns made of literal characters and the
  dot, which stands for any character but a line feed, with the option \<^verbatim>\<open>i\<close> or none:
  an instance of the parameter \<open>regex\<close> at which the theorems are run. A pattern with
  another metacharacter is refused (\<open>None\<close>), and so is any other option.
\<close>

definition other_meta :: "char \<Rightarrow> bool" where
  "other_meta c =
     (c \<in> set [CHR 0x5C, CHR ''^'', CHR ''$'', CHR ''|'', CHR ''?'', CHR ''*'', CHR ''+'',
               CHR ''('', CHR '')'', CHR ''['', CHR '']'', CHR ''{'', CHR ''}''])"

fun match_here :: "bool \<Rightarrow> string \<Rightarrow> string \<Rightarrow> bool" where
  "match_here caseless [] s = True"
| "match_here caseless (p # ps) [] = False"
| "match_here caseless (p # ps) (c # cs) =
     ((if p = CHR ''.'' then c \<noteq> CHR 0x0A
       else if caseless then lower p = lower c else p = c) \<and>
      match_here caseless ps cs)"

fun match_anywhere :: "bool \<Rightarrow> string \<Rightarrow> string \<Rightarrow> bool" where
  "match_anywhere caseless p [] = match_here caseless p []"
| "match_anywhere caseless p (c # cs) =
     (match_here caseless p (c # cs) \<or> match_anywhere caseless p cs)"

definition dot_regex :: "string \<Rightarrow> string \<Rightarrow> (string \<Rightarrow> bool) option" where
  "dot_regex p options =
     (if list_ex other_meta p \<or> (options \<noteq> [] \<and> options \<noteq> ''i'') then None
      else Some (match_anywhere (options = ''i'') p))"

text \<open>``The title contains the search text, ignoring case'', in the words of the
  specification, and the search texts that are literal: without a metacharacter of
  regular expressions.\<close>

fun contains_ci :: "string \<Rightarrow> string \<Rightarrow> bool" where
  "contains_ci s [] = (s = [])"
| "contains_ci s (c # cs) =
     (startsWith (map lower s) (map lower (c # cs)) \<or> contains_ci s cs)"

definition literal :: "string \<Rightarrow> bool" where
  "literal p = (\<not> list_ex other_meta p \<and> \<not> list_ex (\<lambda>c. c = CHR ''.'') p)"

section \<open>Featured courses\<close>

text \<open>
  \<^verbatim>\<open>sort({ createdAt: -1 })\<close>. A date orders by its time; a value that is not a date
  orders below every date in BSON's comparison order (an array counts as its newest
  date, if it holds one). The order MongoDB gives documents without a date among
  themselves, and documents of equal date, is not modelled: they keep their stored
  order.
\<close>

definition date_key :: "json option \<Rightarrow> int option" where
  "date_key v =
     (case v of
        Some (JDate t) \<Rightarrow> Some t
      | Some (JArr xs) \<Rightarrow>
          (case List.map_filter (\<lambda>x. case x of JDate t \<Rightarrow> Some t | _ \<Rightarrow> None) xs of
             [] \<Rightarrow> None
           | t # ts \<Rightarrow> Some (fold max ts t))
      | _ \<Rightarrow> None)"

definition newer_eq :: "doc \<Rightarrow> doc \<Rightarrow> bool" where
  "newer_eq a b =
     (case date_key (field_of b ''createdAt'') of
        None \<Rightarrow> True
      | Some y \<Rightarrow> (case date_key (field_of a ''createdAt'') of None \<Rightarrow> False | Some x \<Rightarrow> y \<le> x))"

fun insert_desc :: "doc \<Rightarrow> doc list \<Rightarrow> doc list" where
  "insert_desc x [] = [x]"
| "insert_desc x (y # ys) = (if newer_eq x y then x # y # ys else y # insert_desc x ys)"

fun sort_desc :: "doc list \<Rightarrow> doc list" where
  "sort_desc [] = []"
| "sort_desc (x # xs) = insert_desc x (sort_desc xs)"

text \<open>\<^verbatim>\<open>Math.min(parseInt(req.query.limit || dflt, 10), 100)\<close>: an empty parameter is
  falsy and takes the default too.\<close>

definition capped_limit :: "string option \<Rightarrow> string \<Rightarrow> int option" where
  "capped_limit param dflt =
     map_option (\<lambda>n. min n 100)
       (parseInt (case param of None \<Rightarrow> dflt | Some s \<Rightarrow> if s = [] then dflt else s) 10)"

text \<open>\<^verbatim>\<open>{ ...c, image: c.image || c.imageUrl || '' }\<close>.\<close>

definition or_else :: "json option \<Rightarrow> json \<Rightarrow> json" where
  "or_else a b = (case a of None \<Rightarrow> b | Some x \<Rightarrow> if truthy x then x else b)"

definition normalize_image :: "doc \<Rightarrow> doc" where
  "normalize_image c =
     AList.update ''image''
       (or_else (field_of c ''image'') (or_else (field_of c ''imageUrl'') (JStr ''''))) c"

definition featured :: "doc \<Rightarrow> bool" where
  "featured c = eq_filter (JBool True) (field_of c ''isFeatured'')"

text \<open>\<^verbatim>\<open>app.get('/featured-courses', ...)\<close>; a rejected query is caught and answered 500.\<close>

definition get_featured_courses :: "string option \<Rightarrow> db \<Rightarrow> (failure + doc list) \<times> db" where
  "get_featured_courses limit d =
     (case window (Some 0) (capped_limit limit ''6'') (sort_desc (filter featured (courses d))) of
        None \<Rightarrow> (Inl (Reply 500 ''Server error''), d)
      | Some list \<Rightarrow> (Inr (map normalize_image list), d))"

section \<open>Instructors\<close>

text \<open>\<^verbatim>\<open>u => ({ name: u.name, email: u.email, photo: u.photo || '' })\<close>.\<close>

definition instructor_card :: "user \<Rightarrow> doc" where
  "instructor_card u =
     [(''name'', u_name u), (''email'', JStr (u_email u)),
      (''photo'', if truthy (u_photo u) then u_photo u else JStr '''')]"

text \<open>\<^verbatim>\<open>xs.slice(0, n)\<close>: a negative \<open>n\<close> counts from the end.\<close>

definition slice0 :: "int \<Rightarrow> 'a list \<Rightarrow> 'a list" where
  "slice0 n xs = (if n < 0 then take (length xs - nat (- n)) xs else take (nat n) xs)"

text \<open>
  The stages \<^verbatim>\<open>$match\<close>, \<^verbatim>\<open>$group\<close> and \<^verbatim>\<open>$replaceRoot\<close> of the fallback pipeline. A
  course enters when its \<^verbatim>\<open>instructor\<close> is an object with an \<^verbatim>\<open>email\<close> member (an
  \<^verbatim>\<open>instructor\<close> that is an array of objects, which MongoDB would search as well, is
  outside this embedding). \<^verbatim>\<open>$group\<close> keeps, for each email, the \<^verbatim>\<open>instructor\<close> of the
  first course that has it. MongoDB leaves the order of the groups open; here they
  come in the order of their first course.
\<close>

definition course_instructor :: "doc \<Rightarrow> (json \<times> doc) option" where
  "course_instructor c =
     (case field_of c ''instructor'' of
        Some (JObj i) \<Rightarrow> (case field_of i ''email'' of None \<Rightarrow> None | Some e \<Rightarrow> Some (e, i))
      | _ \<Rightarrow> None)"

fun group_first :: "(json \<times> doc) list \<Rightarrow> doc list" where
  "group_first [] = []"
| "group_first ((e, i) # rest) = i # group_first (filter (\<lambda>p. fst p \<noteq> e) rest)"

definition is_instructor :: "user \<Rightarrow> bool" where
  "is_instructor u = eq_filter (JStr ''instructor'') (Some (u_role u))"

text \<open>\<^verbatim>\<open>app.get('/instructors', ...)\<close>. The aggregation stage \<^verbatim>\<open>{ $limit: l }\<close> needs a
  positive \<open>l\<close>; the server rejects any other, and the handler answers 500.\<close>

definition get_instructors :: "string option \<Rightarrow> db \<Rightarrow> (failure + doc list) \<times> db" where
  "get_instructors limit d =
     (case capped_limit limit ''4'' of
        None \<Rightarrow> (Inl (Reply 500 ''Server error''), d)
      | Some l \<Rightarrow>
          (case window (Some 0) (Some l) (filter is_instructor (users d)) of
             None \<Rightarrow> (Inl (Reply 500 ''Server error''), d)
           | Some instructorsFromUsers \<Rightarrow>
               if instructorsFromUsers \<noteq> [] then
                 (Inr (map instructor_card (slice0 l instructorsFromUsers)), d)
               else if l \<le> 0 then (Inl (Reply 500 ''Server error''), d)
               else (Inr (take (nat l)
                            (group_first (List.map_filter course_instructor (courses d)))), d)))"

section \<open>Example data\<close>

text \<open>Concrete values at which the theorems below are instantiated.\<close>

definition oid1 :: string where "oid1 = ''64b0c0ffee64b0c0ffee0001''"

definition oid2 :: string where "oid2 = ''64b0c0ffee64b0c0ffee0002''"

definition alice :: user where
  "alice = \<lparr>u_id = ''u1'', u_email = ''a@x.com'', u_name = JStr ''A'', u_photo = JNull,
            u_role = JStr ''student''\<rparr>"

definition alice_db :: db where
  "alice_db = \<lparr>courses = [], enrolled = [], users = [alice]\<rparr>"


definition course1 :: doc where
  "course1 = [(''_id'', JOid oid1), (''title'', JStr ''Rust'')]"

definition join_db :: db where
  "join_db = \<lparr>courses = [course1],
     enrolled = [\<lparr>e_id = ''e1'', e_userEmail = Some ''a@x.com'', e_courseId = oid1, e_enrolledAt = 1000\<rparr>,
                 \<lparr>e_id = ''e2'', e_userEmail = Some ''a@x.com'', e_courseId = oid2, e_enrolledAt = 2000\<rparr>,
                 \<lparr>e_id = ''e3'', e_userEmail = Some ''b@x.com'', e_courseId = oid1, e_enrolledAt = 3000\<rparr>],
     users = [alice]\<rparr>"




definition course_abc :: doc where
  "course_abc = [(''_id'', JOid oid1), (''title'', JStr ''abc''), (''category'', JStr ''web'')]"

definition course_xyz :: doc where
  "course_xyz = [(''_id'', JOid oid2), (''title'', JStr ''Xyz''), (''category'', JStr ''data'')]"

definition list_db :: db where
  "list_db = \<lparr>courses = [course_abc, course_xyz], enrolled = [], users = []\<rparr>"

definition featured_db :: db where
  "featured_db =
     \<lparr>courses =
        [[(''_id'', JOid ''c1''), (''isFeatured'', JBool True), (''createdAt'', JDate 10),
          (''image'', JStr ''https://x.io/1.png'')],
         [(''_id'', JOid ''c2''), (''isFeatured'', JBool False), (''createdAt'', JDate 50)],
         [(''_id'', JOid ''c3''), (''isFeatured'', JBool True), (''createdAt'', JDate 30),
          (''imageUrl'', JStr ''https://x.io/3.png'')],
         [(''_id'', JOid ''c4''), (''createdAt'', JDate 40)],
         [(''_id'', JOid ''c5''), (''isFeatured'', JBool True), (''createdAt'', JDate 20)]],
      enrolled = [], users = []\<rparr>"

definition legacy_db :: db where
  "legacy_db =
     \<lparr>courses =
        [[(''_id'', JOid ''c1''), (''isFeatured'', JBool True), (''createdAt'', JDate 10),
          (''image'', JStr ''''), (''imageUrl'', JStr ''https://x.io/old.png'')]],
      enrolled = [], users = []\<rparr>"

definition mona :: user where
  "mona = \<lparr>u_id = ''u2'', u_email = ''m@x.com'', u_name = JStr ''M'', u_photo = JNull,
           u_role = JStr ''instructor''\<rparr>"

definition staff_db :: db where
  "staff_db = \<lparr>courses = [], enrolled = [], users = [alice, mona]\<rparr>"

definition taught_db :: db where
  "taught_db =
     \<lparr>courses =
        [[(''_id'', JOid ''c1''),
          (''instructor'', JObj [(''name'', JStr ''M''), (''email'', JStr ''m@x.com'')])],
         [(''_id'', JOid ''c2''),
          (''instructor'', JObj [(''name'', JStr ''N''), (''email'', JStr ''n@x.com'')])],
         [(''_id'', JOid ''c3''),
          (''instructor'', JObj [(''name'', JStr ''Mona''), (''email'', JStr ''m@x.com'')])]],
      enrolled = [], users = [alice]\<rparr>"

definition course_fx :: doc where
  "course_fx = [(''_id'', JOid oid1), (''title'', JStr ''f(x)''), (''category'', JStr ''math'')]"

definition paren_db :: db where
  "paren_db = \<lparr>courses = [course_fx], enrolled = [], users = []\<rparr>"

section \<open>Auxiliary facts about lists\<close>

lemma find_snoc_fresh:
  "find P xs = None \<Longrightarrow> P x \<Longrightarrow> find P (xs @ [x]) = Some x"
  by (induction xs) (auto split: if_splits)

lemma find_None_list_ex: "find P xs = None \<longleftrightarrow> \<not> list_ex P xs"
  by (auto simp: find_None_iff list_ex_iff)

lemma filter_none_list_ex: "\<not> list_ex P xs \<Longrightarrow> filter P xs = []"
  by (induction xs) auto

lemma filter_snoc_one:
  "\<not> list_ex P xs \<Longrightarrow> P x \<Longrightarrow> length (filter P (xs @ [x])) = 1"
  by (simp add: filter_none_list_ex)

lemma filter_unique_find:
  "distinct (map f xs) \<Longrightarrow>
   filter (\<lambda>x. f x = v) xs = (case find (\<lambda>x. f x = v) xs of None \<Rightarrow> [] | Some x \<Rightarrow> [x])"
proof (induction xs)
  case Nil
  then show ?case by simp
next
  case (Cons a xs)
  show ?case
  proof (cases "f a = v")
    case True
    with Cons.prems have "\<forall>x\<in>set xs. f x \<noteq> v" by (metis distinct.simps(2) imageI list.simps(9) set_map)
    then have "filter (\<lambda>x. f x = v) xs = []" by (simp add: filter_empty_conv)
    with True show ?thesis by simp
  next
    case False
    with Cons show ?thesis by simp
  qed
qed

lemma concat_map_option_list:
  "concat (map (\<lambda>e. case g e of None \<Rightarrow> [] | Some y \<Rightarrow> [h e y]) xs) =
   List.map_filter (\<lambda>e. map_option (h e) (g e)) xs"
  by (induction xs) (auto split: option.splits)

lemma ObjectId_isValid_nonempty: "ObjectId_isValid s \<Longrightarrow> s \<noteq> []"
  by (auto simp: ObjectId_isValid_def)

lemma find_Some_set: "find P xs = Some x \<Longrightarrow> x \<in> set xs \<and> P x"
  by (induction xs) (auto split: if_splits)

lemma oid1_valid: "ObjectId_isValid oid1" "ObjectId oid1 = oid1"
  by (simp_all add: ObjectId_isValid_def ObjectId_def oid1_def is_hex_def lower_def)

section \<open>Properties of the authorisation middleware\<close>

lemma verifyUser_failures:
  "verifyUser v h = Inl f \<Longrightarrow> f = Reply 401 ''No token'' \<or> f = Reply 403 ''Invalid token''"
  by (auto simp: verifyUser_def split: option.splits if_splits list.splits)

lemma findOne_user_None_iff:
  "findOne_user q us = None \<longleftrightarrow> \<not> list_ex (\<lambda>u. q = Some (u_email u)) us"
  by (auto simp: findOne_user_def find_None_iff list_ex_iff)

text \<open>
  C1. On a role-gated route, a request whose credential verifies is answered by the
  role lookup alone. When no user record carries the authenticated email, the answer is
  403 \<^verbatim>\<open>User not found\<close>, a reply that \<^verbatim>\<open>verifyUser\<close> never gives (its failures are
  401 \<^verbatim>\<open>No token\<close> and 403 \<^verbatim>\<open>Invalid token\<close>). When a record is found, the handler runs
  if and only if the stored role is exactly the string the route requires; any other
  role, \<^verbatim>\<open>instructor\<close> on a \<^verbatim>\<open>student\<close> route included, is answered 403
  \<^verbatim>\<open>Forbidden: wrong role\<close>.
\<close>

theorem role_gate_forbidden_or_exact_role:
  assumes "verifyUser verifyIdToken authHeader = Inr usr"
  shows "(\<not> list_ex (\<lambda>u. c_email usr = Some (u_email u)) (users d) \<longrightarrow>
            checkRole requiredRole d usr = Inl (Reply 403 ''User not found'') \<and>
            gated verifyIdToken requiredRole authHeader handler d =
              (Inl (Reply 403 ''User not found''), d))
       \<and> (\<forall>found. findOne_user (c_email usr) (users d) = Some found \<longrightarrow>
            (checkRole requiredRole d usr = Inr () \<longleftrightarrow> u_role found = JStr requiredRole) \<and>
            gated verifyIdToken requiredRole authHeader handler d =
              (if u_role found = JStr requiredRole then handler usr d
               else (Inl (Reply 403 ''Forbidden: wrong role''), d)))
       \<and> (\<forall>h. verifyUser verifyIdToken h \<noteq> Inl (Reply 403 ''User not found'') \<and>
                verifyUser verifyIdToken h \<noteq> Inl (Reply 403 ''Forbidden: wrong role''))"
proof (intro conjI impI allI)
  assume "\<not> list_ex (\<lambda>u. c_email usr = Some (u_email u)) (users d)"
  then have none: "findOne_user (c_email usr) (users d) = None"
    by (simp add: findOne_user_None_iff)
  then show "checkRole requiredRole d usr = Inl (Reply 403 ''User not found'')"
    by (simp add: checkRole_def)
  then show "gated verifyIdToken requiredRole authHeader handler d =
      (Inl (Reply 403 ''User not found''), d)"
    using assms by (simp add: gated_def)
next
  fix found
  assume some: "findOne_user (c_email usr) (users d) = Some found"
  show "checkRole requiredRole d usr = Inr () \<longleftrightarrow> u_role found = JStr requiredRole"
    using some by (simp add: checkRole_def)
  show "gated verifyIdToken requiredRole authHeader handler d =
      (if u_role found = JStr requiredRole then handler usr d
       else (Inl (Reply 403 ''Forbidden: wrong role''), d))"
    using some assms by (simp add: gated_def checkRole_def)
next
  fix h
  show "verifyUser verifyIdToken h \<noteq> Inl (Reply 403 ''User not found'')"
    using verifyUser_failures [of verifyIdToken h "Reply 403 ''User not found''"] by auto
  show "verifyUser verifyIdToken h \<noteq> Inl (Reply 403 ''Forbidden: wrong role'')"
    using verifyUser_failures [of verifyIdToken h "Reply 403 ''Forbidden: wrong role''"] by auto
qed

text \<open>
  The theorem at a token of \<^verbatim>\<open>s@x.io\<close>: with an empty user collection the instructor
  route answers 403 \<^verbatim>\<open>User not found\<close>; with a stored role \<^verbatim>\<open>instructor\<close> the
  instructor route runs its handler and the student route refuses.
\<close>

theorem role_gate_forbidden_or_exact_role_witness:
  "gated (\<lambda>t. if t = ''tok'' then Some \<lparr>c_email = Some ''s@x.io''\<rparr> else None) ''instructor''
      (Some ''Bearer tok'') (\<lambda>usr d. (Inr (c_email usr), d))
      \<lparr>courses = [], enrolled = [], users = []\<rparr>
     = (Inl (Reply 403 ''User not found''), \<lparr>courses = [], enrolled = [], users = []\<rparr>)
   \<and> gated (\<lambda>t. if t = ''tok'' then Some \<lparr>c_email = Some ''s@x.io''\<rparr> else None) ''instructor''
      (Some ''Bearer tok'') (\<lambda>usr d. (Inr (c_email usr), d))
      \<lparr>courses = [], enrolled = [],
       users = [\<lparr>u_id = ''u1'', u_email = ''s@x.io'', u_name = JNull, u_photo = JNull,
                 u_role = JStr ''instructor''\<rparr>]\<rparr>
     = (Inr (Some ''s@x.io''),
        \<lparr>courses = [], enrolled = [],
         users = [\<lparr>u_id = ''u1'', u_email = ''s@x.io'', u_name = JNull, u_photo = JNull,
                   u_role = JStr ''instructor''\<rparr>]\<rparr>)
   \<and> gated (\<lambda>t. if t = ''tok'' then Some \<lparr>c_email = Some ''s@x.io''\<rparr> else None) ''student''
      (Some ''Bearer tok'') (\<lambda>usr d. (Inr (c_email usr), d))
      \<lparr>courses = [], enrolled = [],
       users = [\<lparr>u_id = ''u1'', u_email = ''s@x.io'', u_name = JNull, u_photo = JNull,
                 u_role = JStr ''instructor''\<rparr>]\<rparr>
     = (Inl (Reply 403 ''Forbidden: wrong role''),
        \<lparr>courses = [], enrolled = [],
         users = [\<lparr>u_id = ''u1'', u_email = ''s@x.io'', u_name = JNull, u_photo = JNull,
                   u_role = JStr ''instructor''\<rparr>]\<rparr>)"
proof -
  let ?v = "\<lambda>t. if t = ''tok'' then Some \<lparr>c_email = Some ''s@x.io''\<rparr> else None"
  let ?u = "\<lparr>c_email = Some ''s@x.io''\<rparr>"
  have v: "verifyUser ?v (Some ''Bearer tok'') = Inr ?u"
    by (simp add: verifyUser_def startsWith_def)
  show ?thesis
    using role_gate_forbidden_or_exact_role [OF v, of "\<lparr>courses = [], enrolled = [], users = []\<rparr>"
        "''instructor''" "\<lambda>usr d. (Inr (c_email usr), d)"]
      role_gate_forbidden_or_exact_role [OF v,
        of "\<lparr>courses = [], enrolled = [],
             users = [\<lparr>u_id = ''u1'', u_email = ''s@x.io'', u_name = JNull, u_photo = JNull,
                       u_role = JStr ''instructor''\<rparr>]\<rparr>"
        "''instructor''" "\<lambda>usr d. (Inr (c_email usr), d)"]
      role_gate_forbidden_or_exact_role [OF v,
        of "\<lparr>courses = [], enrolled = [],
             users = [\<lparr>u_id = ''u1'', u_email = ''s@x.io'', u_name = JNull, u_photo = JNull,
                       u_role = JStr ''instructor''\<rparr>]\<rparr>"
        "''student''" "\<lambda>usr d. (Inr (c_email usr), d)"]
    by (simp add: findOne_user_def)
qed

section \<open>Properties of the user endpoint\<close>

text \<open>
  C9. \<^verbatim>\<open>POST /users\<close> is idempotent on an email that has a record. When
  \<^verbatim>\<open>findOne\<close> finds a record for the email, the handler answers that record and the
  database is the one it started from, whatever name, photo or role the body carries.
  After any successful call for an email, a further call for that email (with any body
  members and any role) answers the stored record and changes nothing; when the first
  call created the record, the role it stored is still there.
\<close>

theorem upsert_returns_existing_unchanged:
  assumes "b_email b = Some email" and "email \<noteq> []"
  shows "(\<forall>existing. findOne_user (Some email) (users d) = Some existing \<longrightarrow>
            post_users (Some b) newId d = (Inr (Existing existing), d))
       \<and> (\<forall>r d' (b'::users_body) newId'. post_users (Some b) newId d = (Inr r, d') \<and> b_email b' = Some email \<longrightarrow>
            (\<exists>u. findOne_user (Some email) (users d') = Some u \<and>
                 post_users (Some b') newId' d' = (Inr (Existing u), d') \<and>
                 (findOne_user (Some email) (users d) = None \<longrightarrow>
                    u_role u = (case b_role b of None \<Rightarrow> JStr ''student'' | Some x \<Rightarrow> x))))"
proof (intro conjI allI impI)
  fix existing
  assume "findOne_user (Some email) (users d) = Some existing"
  then show "post_users (Some b) newId d = (Inr (Existing existing), d)"
    using assms by (simp add: post_users_def)
next
  fix r d' and b' :: users_body and newId'
  assume h: "post_users (Some b) newId d = (Inr r, d') \<and> b_email b' = Some email"
  show "\<exists>u. findOne_user (Some email) (users d') = Some u \<and>
            post_users (Some b') newId' d' = (Inr (Existing u), d') \<and>
            (findOne_user (Some email) (users d) = None \<longrightarrow>
               u_role u = (case b_role b of None \<Rightarrow> JStr ''student'' | Some x \<Rightarrow> x))"
  proof (cases "findOne_user (Some email) (users d)")
    case (Some existing)
    with h assms have "d' = d" by (simp add: post_users_def)
    with Some h assms show ?thesis by (simp add: post_users_def)
  next
    case None
    let ?u = "\<lparr>u_id = newId, u_email = email, u_name = stored (b_name b),
               u_photo = stored (b_photo b),
               u_role = (case b_role b of None \<Rightarrow> JStr ''student'' | Some x \<Rightarrow> x)\<rparr>"
    from None h assms have d': "d' = d\<lparr>users := users d @ [?u]\<rparr>"
      by (auto simp: post_users_def insertOne_user_def Let_def split: if_splits)
    from None have "findOne_user (Some email) (users d @ [?u]) = Some ?u"
      unfolding findOne_user_def by (intro find_snoc_fresh) auto
    with d' h assms None show ?thesis by (simp add: post_users_def)
  qed
qed

text \<open>
  The theorem at a stored student \<^verbatim>\<open>a@x.com\<close>: a later call that supplies
  \<^verbatim>\<open>role: "instructor"\<close> gets the stored record back, role \<^verbatim>\<open>student\<close>. And at a
  fresh \<^verbatim>\<open>m@x.com\<close> created as instructor: a second call that supplies
  \<^verbatim>\<open>role: "student"\<close> gets the record of the first call back, role \<^verbatim>\<open>instructor\<close>.
\<close>

theorem upsert_returns_existing_unchanged_witness:
  "post_users (Some \<lparr>b_email = Some ''a@x.com'', b_name = None, b_photo = None,
                     b_role = Some (JStr ''instructor'')\<rparr>) ''u3'' staff_db
     = (Inr (Existing alice), staff_db)
   \<and> u_role alice = JStr ''student''
   \<and> post_users (Some \<lparr>b_email = Some ''m@x.com'', b_name = Some (JStr ''M''), b_photo = None,
                     b_role = Some (JStr ''instructor'')\<rparr>) ''u2'' alice_db
     = (Inr (Inserted ''u2''), staff_db)
   \<and> post_users (Some \<lparr>b_email = Some ''m@x.com'', b_name = None, b_photo = None,
                     b_role = Some (JStr ''student'')\<rparr>) ''u3'' staff_db
     = (Inr (Existing mona), staff_db)
   \<and> u_role mona = JStr ''instructor''"
proof -
  let ?b1 = "\<lparr>b_email = Some ''a@x.com'', b_name = None, b_photo = None,
              b_role = Some (JStr ''instructor'')\<rparr>"
  let ?b2 = "\<lparr>b_email = Some ''m@x.com'', b_name = Some (JStr ''M''), b_photo = None,
              b_role = Some (JStr ''instructor'')\<rparr>"
  let ?b3 = "\<lparr>b_email = Some ''m@x.com'', b_name = None, b_photo = None,
              b_role = Some (JStr ''student'')\<rparr>"
  have first: "post_users (Some ?b2) ''u2'' alice_db = (Inr (Inserted ''u2''), staff_db)"
    by (simp add: post_users_def findOne_user_def insertOne_user_def alice_db_def staff_db_def
        alice_def mona_def stored_def)
  have f: "findOne_user (Some ''a@x.com'') (users staff_db) = Some alice"
    "findOne_user (Some ''m@x.com'') (users staff_db) = Some mona"
    by (simp_all add: findOne_user_def staff_db_def alice_def mona_def)
  from upsert_returns_existing_unchanged [of ?b1 "''a@x.com''" staff_db "''u3''"] f
  have a: "post_users (Some ?b1) ''u3'' staff_db = (Inr (Existing alice), staff_db)"
    by simp
  from upsert_returns_existing_unchanged [of ?b2 "''m@x.com''" alice_db "''u2''"]
  have "\<exists>u. findOne_user (Some ''m@x.com'') (users staff_db) = Some u \<and>
          post_users (Some ?b3) ''u3'' staff_db = (Inr (Existing u), staff_db)"
    using first by (simp del: split_paired_All) (metis users_body.select_convs(1))
  with f have b: "post_users (Some ?b3) ''u3'' staff_db = (Inr (Existing mona), staff_db)"
    by auto
  show ?thesis using a b first by (simp add: alice_def mona_def)
qed

text \<open>
  C10. \<^verbatim>\<open>POST /users\<close> has no middleware and stores the role the body supplies. For
  an email without a record, the created record carries the body's \<^verbatim>\<open>role\<close> member,
  and \<^verbatim>\<open>student\<close> only when the body has none. With \<^verbatim>\<open>role: "instructor"\<close> in the
  body the created record passes \<^verbatim>\<open>checkRole('instructor')\<close>.
\<close>

theorem first_login_takes_role_from_body:
  assumes "b_email b = Some email" and "email \<noteq> []"
    and "findOne_user (Some email) (users d) = None"
    and "\<not> list_ex (\<lambda>x. u_id x = newId) (users d)"
  shows "post_users (Some b) newId d =
           (Inr (Inserted newId),
            d\<lparr>users := users d @
               [\<lparr>u_id = newId, u_email = email, u_name = stored (b_name b),
                 u_photo = stored (b_photo b),
                 u_role = (case b_role b of None \<Rightarrow> JStr ''student'' | Some r \<Rightarrow> r)\<rparr>]\<rparr>)
       \<and> (b_role b = Some (JStr ''instructor'') \<longrightarrow>
            checkRole ''instructor'' (snd (post_users (Some b) newId d)) \<lparr>c_email = Some email\<rparr> = Inr ())"
proof -
  let ?u = "\<lparr>u_id = newId, u_email = email, u_name = stored (b_name b),
             u_photo = stored (b_photo b),
             u_role = (case b_role b of None \<Rightarrow> JStr ''student'' | Some r \<Rightarrow> r)\<rparr>"
  have eq: "post_users (Some b) newId d = (Inr (Inserted newId), d\<lparr>users := users d @ [?u]\<rparr>)"
    using assms by (simp add: post_users_def insertOne_user_def)
  have "findOne_user (Some email) (users d @ [?u]) = Some ?u"
    using assms(3) unfolding findOne_user_def by (intro find_snoc_fresh) auto
  then have "b_role b = Some (JStr ''instructor'') \<longrightarrow>
      checkRole ''instructor'' (d\<lparr>users := users d @ [?u]\<rparr>) \<lparr>c_email = Some email\<rparr> = Inr ()"
    by (auto simp: checkRole_def)
  with eq show ?thesis by simp
qed

text \<open>
  The theorem at a fresh email \<^verbatim>\<open>m@x.com\<close> with \<^verbatim>\<open>role: "instructor"\<close>.
\<close>

theorem first_login_takes_role_from_body_witness:
  "post_users (Some \<lparr>b_email = Some ''m@x.com'', b_name = Some (JStr ''M''), b_photo = None,
                     b_role = Some (JStr ''instructor'')\<rparr>) ''u2'' alice_db
     = (Inr (Inserted ''u2''),
        alice_db\<lparr>users := [alice,
           \<lparr>u_id = ''u2'', u_email = ''m@x.com'', u_name = JStr ''M'', u_photo = JNull,
            u_role = JStr ''instructor''\<rparr>]\<rparr>)
   \<and> checkRole ''instructor''
        (snd (post_users (Some \<lparr>b_email = Some ''m@x.com'', b_name = Some (JStr ''M''),
                b_photo = None, b_role = Some (JStr ''instructor'')\<rparr>) ''u2'' alice_db))
        \<lparr>c_email = Some ''m@x.com''\<rparr> = Inr ()"
  using first_login_takes_role_from_body [of
      "\<lparr>b_email = Some ''m@x.com'', b_name = Some (JStr ''M''), b_photo = None,
        b_role = Some (JStr ''instructor'')\<rparr>" "''m@x.com''" alice_db "''u2''"]
  by (simp add: findOne_user_def alice_db_def alice_def stored_def checkRole_def)

section \<open>Properties of the enrollment endpoints\<close>

text \<open>
  C2. For a caller and a syntactically valid \<^verbatim>\<open>courseId\<close> not yet enrolled by that
  caller, the first \<^verbatim>\<open>POST /enroll\<close> succeeds and appends one record carrying the
  caller's email, the ObjectId and the current time \<open>now\<close>; a second call for the same
  pair is answered 409 \<^verbatim>\<open>Already enrolled\<close> and changes nothing; exactly one record of
  the pair is stored afterwards. A \<^verbatim>\<open>courseId\<close> that is not a valid identifier is
  answered 400 and changes nothing.
\<close>

theorem enroll_once_then_conflict:
  fixes courseId :: string
  defines "rec \<equiv> \<lambda>usr now newId.
     \<lparr>e_id = newId, e_userEmail = c_email usr, e_courseId = ObjectId courseId, e_enrolledAt = now\<rparr>"
  shows "(ObjectId_isValid courseId \<and>
          \<not> list_ex (same_pair (c_email usr) (ObjectId courseId)) (enrolled d) \<and>
          \<not> list_ex (\<lambda>x. e_id x = newId) (enrolled d) \<longrightarrow>
            post_enroll (Some \<lparr>b_courseId = Some courseId\<rparr>) now newId usr d =
              (Inr newId, d\<lparr>enrolled := enrolled d @ [rec usr now newId]\<rparr>) \<and>
            post_enroll (Some \<lparr>b_courseId = Some courseId\<rparr>) now' newId' usr
                (d\<lparr>enrolled := enrolled d @ [rec usr now newId]\<rparr>) =
              (Inl (Reply 409 ''Already enrolled''), d\<lparr>enrolled := enrolled d @ [rec usr now newId]\<rparr>) \<and>
            length (filter (same_pair (c_email usr) (ObjectId courseId))
                      (enrolled d @ [rec usr now newId])) = 1)
       \<and> (\<not> ObjectId_isValid courseId \<longrightarrow>
            post_enroll (Some \<lparr>b_courseId = Some courseId\<rparr>) now newId usr d =
              (Inl (Reply 400 (if courseId = [] then ''courseId required'' else ''Invalid courseId'')), d))"
proof (intro conjI impI)
  assume h: "ObjectId_isValid courseId \<and>
          \<not> list_ex (same_pair (c_email usr) (ObjectId courseId)) (enrolled d) \<and>
          \<not> list_ex (\<lambda>x. e_id x = newId) (enrolled d)"
  let ?r = "rec usr now newId"
  have ne: "courseId \<noteq> []" using h by (simp add: ObjectId_isValid_nonempty)
  have none: "find (same_pair (c_email usr) (ObjectId courseId)) (enrolled d) = None"
    using h by (simp add: find_None_list_ex)
  have pr: "same_pair (c_email usr) (ObjectId courseId) ?r"
    by (simp add: same_pair_def rec_def)
  show "post_enroll (Some \<lparr>b_courseId = Some courseId\<rparr>) now newId usr d =
      (Inr newId, d\<lparr>enrolled := enrolled d @ [?r]\<rparr>)"
    using h ne none by (simp add: post_enroll_def insertOne_enrollment_def rec_def)
  have "find (same_pair (c_email usr) (ObjectId courseId)) (enrolled d @ [?r]) = Some ?r"
    using none pr by (rule find_snoc_fresh)
  then show "post_enroll (Some \<lparr>b_courseId = Some courseId\<rparr>) now' newId' usr
      (d\<lparr>enrolled := enrolled d @ [?r]\<rparr>) =
      (Inl (Reply 409 ''Already enrolled''), d\<lparr>enrolled := enrolled d @ [?r]\<rparr>)"
    using h ne by (simp add: post_enroll_def)
  show "length (filter (same_pair (c_email usr) (ObjectId courseId)) (enrolled d @ [?r])) = 1"
    using h pr by (intro filter_snoc_one) simp_all
next
  assume "\<not> ObjectId_isValid courseId"
  then show "post_enroll (Some \<lparr>b_courseId = Some courseId\<rparr>) now newId usr d =
      (Inl (Reply 400 (if courseId = [] then ''courseId required'' else ''Invalid courseId'')), d)"
    by (simp add: post_enroll_def)
qed

text \<open>
  The theorem at \<^verbatim>\<open>a@x.com\<close> and a 24-digit id, and at the malformed id \<^verbatim>\<open>xyz\<close>.
\<close>

theorem enroll_once_then_conflict_witness:
  "post_enroll (Some \<lparr>b_courseId = Some oid1\<rparr>) 1000 ''e1'' \<lparr>c_email = Some ''a@x.com''\<rparr> alice_db
     = (Inr ''e1'',
        alice_db\<lparr>enrolled := [\<lparr>e_id = ''e1'', e_userEmail = Some ''a@x.com'',
                                 e_courseId = oid1, e_enrolledAt = 1000\<rparr>]\<rparr>)
   \<and> post_enroll (Some \<lparr>b_courseId = Some oid1\<rparr>) 2000 ''e2'' \<lparr>c_email = Some ''a@x.com''\<rparr>
        (alice_db\<lparr>enrolled := [\<lparr>e_id = ''e1'', e_userEmail = Some ''a@x.com'',
                                  e_courseId = oid1, e_enrolledAt = 1000\<rparr>]\<rparr>)
     = (Inl (Reply 409 ''Already enrolled''),
        alice_db\<lparr>enrolled := [\<lparr>e_id = ''e1'', e_userEmail = Some ''a@x.com'',
                                 e_courseId = oid1, e_enrolledAt = 1000\<rparr>]\<rparr>)
   \<and> post_enroll (Some \<lparr>b_courseId = Some ''xyz''\<rparr>) 1000 ''e1'' \<lparr>c_email = Some ''a@x.com''\<rparr> alice_db
     = (Inl (Reply 400 ''Invalid courseId''), alice_db)"
proof -
  have bad: "\<not> ObjectId_isValid ''xyz''"
    by (simp add: ObjectId_isValid_def)
  show ?thesis
    using enroll_once_then_conflict [of oid1 "\<lparr>c_email = Some ''a@x.com''\<rparr>" alice_db "''e1''" 1000 2000 "''e2''"]
      enroll_once_then_conflict [of "''xyz''" "\<lparr>c_email = Some ''a@x.com''\<rparr>" alice_db "''e1''" 1000 2000 "''e2''"]
    by (simp add: oid1_valid bad alice_db_def)
qed

text \<open>
  C8. With course ids unique (the collection's \<^verbatim>\<open>_id\<close> index), \<^verbatim>\<open>GET /enrolled\<close>
  answers, in the order of the caller's enrollment records, one entry for each record
  whose \<^verbatim>\<open>courseId\<close> is the \<^verbatim>\<open>_id\<close> of a stored course: the entry carries that whole
  course document under \<^verbatim>\<open>course\<close> and the record's \<^verbatim>\<open>enrolledAt\<close> (and the record's
  own \<^verbatim>\<open>_id\<close>). A record whose course is not stored contributes no entry, and the
  answer is never an error.
\<close>

theorem enrolled_join_drops_dangling:
  assumes "distinct (map (\<lambda>c. field_of c ''_id'') (courses d))"
  shows "get_enrolled usr d =
           (Inr (List.map_filter
                   (\<lambda>e. map_option (project_entry e) (find (has_id (e_courseId e)) (courses d)))
                   (filter (\<lambda>e. e_userEmail e = c_email usr) (enrolled d))), d)"
proof -
  have "\<And>e. map (project_entry e) (lookup_courses (courses d) e) =
      (case find (has_id (e_courseId e)) (courses d) of None \<Rightarrow> [] | Some c \<Rightarrow> [project_entry e c])"
    using filter_unique_find [OF assms]
    by (simp add: lookup_courses_def has_id_def [abs_def] split: option.splits)
  then show ?thesis
    by (simp add: get_enrolled_def concat_map_option_list)
qed

text \<open>
  The theorem at a caller with one enrollment in a stored course and one in a course
  that is not stored: one entry.
\<close>

theorem enrolled_join_drops_dangling_witness:
  "get_enrolled \<lparr>c_email = Some ''a@x.com''\<rparr> join_db
     = (Inr [[(''_id'', JOid ''e1''), (''enrolledAt'', JDate 1000), (''course'', JObj course1)]],
        join_db)"
proof -
  have "distinct (map (\<lambda>c. field_of c ''_id'') (courses join_db))"
    by (simp add: join_db_def)
  from enrolled_join_drops_dangling [OF this, of "\<lparr>c_email = Some ''a@x.com''\<rparr>"]
  show ?thesis
    by (simp add: join_db_def has_id_def course1_def field_of_def oid1_def oid2_def
        project_entry_def)
qed
section \<open>Properties of course validation and insertion\<close>
















subsection \<open>The schema, demand by demand\<close>


























text \<open>
  A request without a parsed body passes the schema, which is not \<^verbatim>\<open>required()\<close> at its
  root: the stored document has the generated \<^verbatim>\<open>_id\<close> and \<^verbatim>\<open>createdAt\<close> only.
\<close>

lemma post_courses_without_body:
  "\<not> list_ex (has_id newId) (courses d) \<Longrightarrow>
   post_courses lib None now newId d =
     (Inr (JOid newId), d\<lparr>courses := courses d @ [[(''_id'', JOid newId), (''createdAt'', JDate now)]]\<rparr>)"
  by (simp add: post_courses_def validate_def spread_def insertOne_course_def field_of_def
      has_id_def [abs_def] has_key_id_def [abs_def] Let_def)

section \<open>Properties of the course update\<close>















text \<open>A key with a dot sets the member of the embedded document.\<close>

lemma put_course_into_sub_document:
  "put_course oid1 (Some (JObj [(''instructor.email'', JStr ''z@x.com'')])) 5000
     \<lparr>courses = [[(''_id'', JOid oid1),
                  (''instructor'', JObj [(''name'', JStr ''M''), (''email'', JStr ''m@x.com'')])]],
      enrolled = [], users = []\<rparr> =
   Some (Inr 1,
     \<lparr>courses = [[(''_id'', JOid oid1),
                  (''instructor'', JObj [(''name'', JStr ''M''), (''email'', JStr ''z@x.com'')]),
                  (''updatedAt'', JDate 5000)]],
      enrolled = [], users = []\<rparr>)"
  by code_simp


section \<open>Properties of the course listing\<close>

text \<open>On a literal pattern with the option \<^verbatim>\<open>i\<close> the small engine is containment
  without regard to case.\<close>

lemma match_here_caseless:
  "caseless \<Longrightarrow> \<not> list_ex (\<lambda>c. c = CHR ''.'') p \<Longrightarrow>
   match_here caseless p s = startsWith (map lower p) (map lower s)"
  by (induction caseless p s rule: match_here.induct) (auto simp: startsWith_def)

lemma match_here_literal:
  "\<not> list_ex (\<lambda>c. c = CHR ''.'') p \<Longrightarrow>
   match_here True p s = startsWith (map lower p) (map lower s)"
  by (simp add: match_here_caseless)

lemma match_anywhere_literal:
  "\<not> list_ex (\<lambda>c. c = CHR ''.'') p \<Longrightarrow> match_anywhere True p s = contains_ci p s"
proof (induction s)
  case Nil
  then show ?case by (cases p) (simp_all add: match_here_literal startsWith_def)
next
  case (Cons c s)
  then show ?case by (simp add: match_here_literal del: match_here.simps)
qed

lemma dot_regex_literal: "literal p \<longrightarrow> dot_regex p ''i'' = Some (contains_ci p)"
  by (simp add: literal_def dot_regex_def match_anywhere_literal fun_eq_iff)

text \<open>
  C4, as the code has it. The engine is any that, with the option \<^verbatim>\<open>i\<close>, finds a
  literal pattern where the string contains it without regard to case. For a query
  whose \<^verbatim>\<open>page\<close> and \<^verbatim>\<open>limit\<close> are missing or read by \<^verbatim>\<open>parseInt\<close> as integers from 1
  up, and whose search text the engine compiles, \<^verbatim>\<open>GET /all-courses\<close> answers the
  courses that pass both tests, without the first \<open>(page - 1) * limit\<close> of them and cut
  to \<open>limit\<close>; \<open>limit\<close> is 100 and \<open>page\<close> is 1 when missing. The category test is the
  equality filter on a category that is given and not empty. The title test, for a
  search text that is given and not empty, is the search of the text \<^emph>\<open>as a regular
  expression\<close> under the option \<^verbatim>\<open>i\<close> in the title; for a literal search text that is:
  the title contains the text, letter case ignored.
\<close>

theorem list_filters_and_pages:
  assumes "\<forall>p. literal p \<longrightarrow> regex p ''i'' = Some (contains_ci p)"
    and "title_test regex q = Some t"
    and "page_of q = Some p" and "limit_of q = Some l" and "1 \<le> p" and "1 \<le> l"
  shows "get_all_courses regex q d =
           (Inr (take (nat l) (drop (nat ((p - 1) * l))
                   (filter (\<lambda>c. category_test q c \<and> t c) (courses d)))), d)
       \<and> length (take (nat l) (drop (nat ((p - 1) * l))
                   (filter (\<lambda>c. category_test q c \<and> t c) (courses d)))) \<le> nat l
       \<and> (q_limit q = None \<longrightarrow> l = 100) \<and> (q_page q = None \<longrightarrow> p = 1)
       \<and> (\<forall>c. category_test q c =
            (case q_category q of
               None \<Rightarrow> True
             | Some cat \<Rightarrow> cat = [] \<or> eq_filter (JStr cat) (field_of c ''category'')))
       \<and> (\<forall>c. t c =
            (case q_search q of
               None \<Rightarrow> True
             | Some s \<Rightarrow>
                 s = [] \<or> (\<exists>m. regex s ''i'' = Some m \<and> regex_filter m (field_of c ''title''))))
       \<and> (\<forall>s. q_search q = Some s \<and> s \<noteq> [] \<and> literal s \<longrightarrow>
            (\<forall>c. t c = regex_filter (contains_ci s) (field_of c ''title'')) \<and>
            (\<forall>c title. field_of c ''title'' = Some (JStr title) \<longrightarrow> t c = contains_ci s title))"
proof (intro conjI allI impI)
  have "0 \<le> (p - 1) * l" using assms by simp
  then show "get_all_courses regex q d =
      (Inr (take (nat l) (drop (nat ((p - 1) * l))
              (filter (\<lambda>c. category_test q c \<and> t c) (courses d)))), d)"
    using assms by (simp add: get_all_courses_def skip_of_def window_def not_less)
  show "length (take (nat l) (drop (nat ((p - 1) * l))
          (filter (\<lambda>c. category_test q c \<and> t c) (courses d)))) \<le> nat l"
    by simp
  show "l = 100" if "q_limit q = None" using that assms by (simp add: limit_of_def)
  show "p = 1" if "q_page q = None" using that assms by (simp add: page_of_def)
  show "category_test q c =
      (case q_category q of
         None \<Rightarrow> True
       | Some cat \<Rightarrow> cat = [] \<or> eq_filter (JStr cat) (field_of c ''category''))" for c
    by (auto simp: category_test_def split: option.splits)
  show "t c =
      (case q_search q of
         None \<Rightarrow> True
       | Some s \<Rightarrow>
           s = [] \<or> (\<exists>m. regex s ''i'' = Some m \<and> regex_filter m (field_of c ''title'')))" for c
    using assms(2) by (auto simp: title_test_def split: option.splits if_splits)
  show "t c = regex_filter (contains_ci s) (field_of c ''title'')"
    if "q_search q = Some s \<and> s \<noteq> [] \<and> literal s" for s c
    using that assms(1,2) by (auto simp: title_test_def)
  show "t c = contains_ci s title"
    if "q_search q = Some s \<and> s \<noteq> [] \<and> literal s" and "field_of c ''title'' = Some (JStr title)"
    for s c title
    using that assms(1,2) by (auto simp: title_test_def regex_filter_def)
qed

text \<open>
  The statement of the specification fails five times. The search text \<^verbatim>\<open>.\<close> is a
  pattern that any character matches: the course titled \<^verbatim>\<open>abc\<close> is answered, and its
  title does not contain the text. \<^verbatim>\<open>limit=0\<close> is no limit to the cursor: two documents
  are answered. \<^verbatim>\<open>page=0\<close> asks the cursor for a negative skip: the query is rejected
  and the exception leaves the handler. The search text \<^verbatim>\<open>(\<close> is no regular expression:
  the query is rejected, although the title \<^verbatim>\<open>f(x)\<close> contains the text. And the empty
  category, given as \<^verbatim>\<open>category=\<close>, is no filter: a course of category \<^verbatim>\<open>web\<close> is
  answered.
\<close>

theorem list_regex_and_zero_limit_counterexample:
  "get_all_courses dot_regex
      \<lparr>q_category = None, q_search = Some ''.'', q_page = None, q_limit = None\<rparr> list_db =
     (Inr [course_abc, course_xyz], list_db)
   \<and> \<not> contains_ci ''.'' ''abc''
   \<and> get_all_courses dot_regex
      \<lparr>q_category = None, q_search = None, q_page = None, q_limit = Some ''0''\<rparr> list_db =
     (Inr [course_abc, course_xyz], list_db)
   \<and> get_all_courses dot_regex
      \<lparr>q_category = None, q_search = None, q_page = Some ''0'', q_limit = None\<rparr> list_db =
     (Inl Uncaught, list_db)
   \<and> get_all_courses dot_regex
      \<lparr>q_category = None, q_search = Some ''('', q_page = None, q_limit = None\<rparr> paren_db =
     (Inl Uncaught, paren_db)
   \<and> contains_ci ''('' ''f(x)''
   \<and> get_all_courses dot_regex
      \<lparr>q_category = Some '''', q_search = None, q_page = None, q_limit = None\<rparr> list_db =
     (Inr [course_abc, course_xyz], list_db)
   \<and> field_of course_abc ''category'' = Some (JStr ''web'')"
  by code_simp

text \<open>
  The theorem at a category with a literal search text in mixed case, and at the
  second page of pages of one.
\<close>

theorem list_filters_and_pages_witness:
  "get_all_courses dot_regex
      \<lparr>q_category = Some ''data'', q_search = Some ''xY'', q_page = Some ''1'', q_limit = None\<rparr>
      list_db =
     (Inr [course_xyz], list_db)
   \<and> get_all_courses dot_regex
      \<lparr>q_category = None, q_search = None, q_page = Some ''2'', q_limit = Some ''1''\<rparr>
      list_db =
     (Inr [course_xyz], list_db)"
proof -
  let ?q1 = "\<lparr>q_category = Some ''data'', q_search = Some ''xY'', q_page = Some ''1'', q_limit = None\<rparr>"
  let ?q2 = "\<lparr>q_category = None, q_search = None, q_page = Some ''2'', q_limit = Some ''1''\<rparr>"
  have e: "\<forall>p. literal p \<longrightarrow> dot_regex p ''i'' = Some (contains_ci p)"
    using dot_regex_literal by blast
  have lit: "literal ''xY''" by code_simp
  have t1: "title_test dot_regex ?q1 = Some (\<lambda>c. regex_filter (contains_ci ''xY'') (field_of c ''title''))"
    using e lit by (simp add: title_test_def)
  have t2: "title_test dot_regex ?q2 = Some (\<lambda>c. True)"
    by (simp add: title_test_def)
  have p1: "page_of ?q1 = Some 1" "limit_of ?q1 = Some 100" by code_simp+
  have p2: "page_of ?q2 = Some 2" "limit_of ?q2 = Some 1" by code_simp+
  have f1: "filter (\<lambda>c. category_test ?q1 c \<and> regex_filter (contains_ci ''xY'') (field_of c ''title''))
      (courses list_db) = [course_xyz]"
    by code_simp
  have f3: "take (Suc 0) (drop (Suc 0) (courses list_db)) = [course_xyz]"
    by (simp add: list_db_def)
  show ?thesis
    using list_filters_and_pages [OF e t1 p1, of list_db] list_filters_and_pages [OF e t2 p2, of list_db]
    by (simp add: f1 f3)
qed

section \<open>Properties of the featured listing\<close>

lemma newer_eq_total: "newer_eq a b \<or> newer_eq b a"
  by (auto simp: newer_eq_def split: option.splits)

lemma newer_eq_trans: "newer_eq a b \<Longrightarrow> newer_eq b c \<Longrightarrow> newer_eq a c"
  by (auto simp: newer_eq_def split: option.splits)

lemma set_insert_desc: "set (insert_desc x ys) = insert x (set ys)"
  by (induction ys) auto

lemma length_insert_desc: "length (insert_desc x ys) = Suc (length ys)"
  by (induction ys) auto

lemma sorted_insert_desc:
  "sorted_wrt newer_eq ys \<Longrightarrow> sorted_wrt newer_eq (insert_desc x ys)"
proof (induction ys)
  case Nil
  show ?case by simp
next
  case (Cons y ys)
  show ?case
  proof (cases "newer_eq x y")
    case True
    have "\<forall>z\<in>set ys. newer_eq x z"
      using True Cons.prems newer_eq_trans by auto
    with True Cons.prems show ?thesis by simp
  next
    case False
    then have "newer_eq y x" using newer_eq_total by blast
    with False Cons show ?thesis by (auto simp: set_insert_desc)
  qed
qed

lemma set_sort_desc: "set (sort_desc xs) = set xs"
  by (induction xs) (auto simp: set_insert_desc)

lemma length_sort_desc: "length (sort_desc xs) = length xs"
  by (induction xs) (auto simp: length_insert_desc)

lemma sorted_sort_desc: "sorted_wrt newer_eq (sort_desc xs)"
  by (induction xs) (auto simp: sorted_insert_desc)

lemma field_of_normalize_image:
  "field_of (normalize_image c) k =
     (if k = ''image''
      then Some (or_else (field_of c ''image'') (or_else (field_of c ''imageUrl'') (JStr '''')))
      else field_of c k)"
  by (simp add: normalize_image_def field_of_def update_conv')

lemma newer_eq_normalize_image:
  "newer_eq (normalize_image a) (normalize_image b) = newer_eq a b"
  by (simp add: newer_eq_def field_of_normalize_image split: option.splits)

text \<open>
  C5, as the code has it. For a \<^verbatim>\<open>limit\<close> parameter that is missing or read by
  \<^verbatim>\<open>parseInt\<close> as an integer from 1 up, with \<open>l\<close> the smaller of it and 100 (6 when
  missing), \<^verbatim>\<open>GET /featured-courses\<close> answers the first \<open>l\<close> of the courses with
  \<^verbatim>\<open>isFeatured: true\<close>, newest \<^verbatim>\<open>createdAt\<close> first: only featured courses, as many as
  there are up to \<open>l\<close>. In each answered document \<^verbatim>\<open>image\<close> is the stored \<^verbatim>\<open>image\<close> when
  that is truthy (present and not empty), else \<^verbatim>\<open>imageUrl\<close> when that is truthy, else
  the empty string; the other members are the stored ones.
\<close>

theorem featured_sorted_capped_normalized:
  assumes "capped_limit param ''6'' = Some l" and "1 \<le> l"
  shows "get_featured_courses param d =
           (Inr (map normalize_image (take (nat l) (sort_desc (filter featured (courses d))))), d)
       \<and> set (take (nat l) (sort_desc (filter featured (courses d))))
            \<subseteq> {c \<in> set (courses d). eq_filter (JBool True) (field_of c ''isFeatured'')}
       \<and> sorted_wrt newer_eq
            (map normalize_image (take (nat l) (sort_desc (filter featured (courses d)))))
       \<and> length (take (nat l) (sort_desc (filter featured (courses d))))
            = min (nat l) (length (filter featured (courses d)))
       \<and> l \<le> 100 \<and> (param = None \<longrightarrow> l = 6)
       \<and> (\<forall>c k. field_of (normalize_image c) k =
            (if k = ''image''
             then Some (or_else (field_of c ''image'')
                          (or_else (field_of c ''imageUrl'') (JStr '''')))
             else field_of c k))"
proof (intro conjI allI impI)
  let ?list = "take (nat l) (sort_desc (filter featured (courses d)))"
  have "l \<noteq> 0" "\<bar>l\<bar> = l" using assms(2) by simp_all
  then show "get_featured_courses param d = (Inr (map normalize_image ?list), d)"
    using assms(1) by (simp add: get_featured_courses_def window_def)
  have "set ?list \<subseteq> set (sort_desc (filter featured (courses d)))"
    by (rule set_take_subset)
  then show "set ?list \<subseteq> {c \<in> set (courses d). eq_filter (JBool True) (field_of c ''isFeatured'')}"
    by (auto simp: set_sort_desc featured_def)
  have "sorted_wrt newer_eq ?list"
    by (simp add: sorted_sort_desc)
  then show "sorted_wrt newer_eq (map normalize_image ?list)"
    by (simp add: sorted_wrt_map newer_eq_normalize_image)
  show "length ?list = min (nat l) (length (filter featured (courses d)))"
    by (simp add: length_sort_desc min.commute)
  show "l \<le> 100"
    using assms(1) by (auto simp: capped_limit_def)
  show "l = 6" if "param = None"
  proof -
    have "parseInt ''6'' 10 = Some 6" by code_simp
    with that assms(1) show ?thesis by (simp add: capped_limit_def)
  qed
  show "field_of (normalize_image c) k =
      (if k = ''image''
       then Some (or_else (field_of c ''image'') (or_else (field_of c ''imageUrl'') (JStr '''')))
       else field_of c k)" for c k
    by (rule field_of_normalize_image)
qed

text \<open>
  ``At most limit documents'' and ``the stored image if present'' fail at
  \<^verbatim>\<open>limit=0\<close> on a featured course that stores an empty \<^verbatim>\<open>image\<close>
  beside an \<^verbatim>\<open>imageUrl\<close>: the limit is 0 and one document is answered, and its
  \<^verbatim>\<open>image\<close> is the \<^verbatim>\<open>imageUrl\<close>, not the stored \<^verbatim>\<open>image\<close>.
\<close>

theorem featured_zero_limit_and_empty_image_counterexample:
  "get_featured_courses (Some ''0'') legacy_db =
     (Inr [[(''_id'', JOid ''c1''), (''isFeatured'', JBool True), (''createdAt'', JDate 10),
            (''image'', JStr ''https://x.io/old.png''),
            (''imageUrl'', JStr ''https://x.io/old.png'')]], legacy_db)
   \<and> capped_limit (Some ''0'') ''6'' = Some 0
   \<and> field_of (hd (courses legacy_db)) ''image'' = Some (JStr '''')"
  by code_simp

text \<open>
  The theorem at \<^verbatim>\<open>limit=2\<close> on three featured and two other courses: the two newest
  featured courses, newest first.
\<close>

theorem featured_sorted_capped_normalized_witness:
  "get_featured_courses (Some ''2'') featured_db =
     (Inr [[(''_id'', JOid ''c3''), (''isFeatured'', JBool True), (''createdAt'', JDate 30),
            (''imageUrl'', JStr ''https://x.io/3.png''), (''image'', JStr ''https://x.io/3.png'')],
           [(''_id'', JOid ''c5''), (''isFeatured'', JBool True), (''createdAt'', JDate 20),
            (''image'', JStr '''')]], featured_db)"
proof -
  have l: "capped_limit (Some ''2'') ''6'' = Some 2" by code_simp
  have m: "map normalize_image (take (nat 2) (sort_desc (filter featured (courses featured_db)))) =
     [[(''_id'', JOid ''c3''), (''isFeatured'', JBool True), (''createdAt'', JDate 30),
       (''imageUrl'', JStr ''https://x.io/3.png''), (''image'', JStr ''https://x.io/3.png'')],
      [(''_id'', JOid ''c5''), (''isFeatured'', JBool True), (''createdAt'', JDate 20),
       (''image'', JStr '''')]]"
    by code_simp
  show ?thesis
    using featured_sorted_capped_normalized [OF l, of featured_db] m by simp
qed

section \<open>Properties of the instructor listing\<close>

lemma find_filter_other_key:
  "e' \<noteq> e \<Longrightarrow>
   find (\<lambda>p. fst p = e') (filter (\<lambda>p. fst p \<noteq> e) ps) = find (\<lambda>p. fst p = e') ps"
  by (induction ps) auto

lemma group_first_is_first:
  "i \<in> set (group_first ps) \<Longrightarrow> \<exists>e. find (\<lambda>p. fst p = e) ps = Some (e, i)"
proof (induction ps arbitrary: i rule: group_first.induct)
  case 1
  then show ?case by simp
next
  case (2 e j rest)
  show ?case
  proof (cases "i = j \<and> True")
    case True
    then show ?thesis by (intro exI [of _ e]) simp
  next
    case False
    with "2.prems" have "i \<in> set (group_first (filter (\<lambda>p. fst p \<noteq> e) rest))" by simp
    from "2.IH" [OF this] obtain e' where
      f: "find (\<lambda>p. fst p = e') (filter (\<lambda>p. fst p \<noteq> e) rest) = Some (e', i)" by blast
    then have "(e', i) \<in> set (filter (\<lambda>p. fst p \<noteq> e) rest)"
      using find_Some_set by fastforce
    then have ne: "e' \<noteq> e" by auto
    with f have "find (\<lambda>p. fst p = e') rest = Some (e', i)"
      by (simp add: find_filter_other_key)
    with ne show ?thesis by (intro exI [of _ e']) auto
  qed
qed


lemma group_first_distinct:
  assumes "\<forall>p\<in>set ps. key (snd p) = fst p"
  shows "distinct (map key (group_first ps))"
  using assms
proof (induction ps rule: group_first.induct)
  case 1
  show ?case by simp
next
  case (2 e j rest)
  have sub: "\<forall>p\<in>set (filter (\<lambda>p. fst p \<noteq> e) rest). key (snd p) = fst p"
    using "2.prems" by auto
  have ne: "\<forall>i\<in>set (group_first (filter (\<lambda>p. fst p \<noteq> e) rest)). key i \<noteq> e"
  proof
    fix i
    assume "i \<in> set (group_first (filter (\<lambda>p. fst p \<noteq> e) rest))"
    from group_first_is_first [OF this] obtain e' where
      "find (\<lambda>p. fst p = e') (filter (\<lambda>p. fst p \<noteq> e) rest) = Some (e', i)" by blast
    then have "(e', i) \<in> set (filter (\<lambda>p. fst p \<noteq> e) rest)"
      using find_Some_set by fastforce
    with sub show "key i \<noteq> e" by fastforce
  qed
  have "key j = e" using "2.prems" by simp
  with ne have "key j \<notin> key ` set (group_first (filter (\<lambda>p. fst p \<noteq> e) rest))"
    by (auto simp: image_iff)
  with "2.IH" [OF sub] show ?case by simp
qed

lemma course_instructor_email:
  "course_instructor c = Some (e, i) \<Longrightarrow>
     field_of c ''instructor'' = Some (JObj i) \<and> field_of i ''email'' = Some e"
  by (auto simp: course_instructor_def split: option.splits json.splits)

lemma map_filter_instructor_keys:
  "\<forall>p\<in>set (List.map_filter course_instructor cs). field_of (snd p) ''email'' = Some (fst p)"
  by (auto simp: List.map_filter_def dest: course_instructor_email)

text \<open>
  C7, as the code has it. For a \<^verbatim>\<open>limit\<close> parameter that is missing or read by
  \<^verbatim>\<open>parseInt\<close> as an integer from 1 up, with \<open>l\<close> the smaller of it and 100 (4 when
  missing): when some user has the role \<^verbatim>\<open>instructor\<close>, \<^verbatim>\<open>GET /instructors\<close> answers the
  first \<open>l\<close> of those users as name, email and photo; when none has, it answers the
  first \<open>l\<close> of the instructor sub-documents of the courses grouped by email. The
  groups have pairwise different emails, and the sub-document of a group is that of the
  first course with the email.
\<close>

theorem instructors_from_users_or_courses:
  assumes "capped_limit param ''4'' = Some l" and "1 \<le> l"
  shows "(filter is_instructor (users d) \<noteq> [] \<longrightarrow>
            get_instructors param d =
              (Inr (map instructor_card (take (nat l) (filter is_instructor (users d)))), d))
       \<and> (filter is_instructor (users d) = [] \<longrightarrow>
            get_instructors param d =
              (Inr (take (nat l) (group_first (List.map_filter course_instructor (courses d)))), d))
       \<and> distinct (map (\<lambda>i. field_of i ''email'')
                    (group_first (List.map_filter course_instructor (courses d))))
       \<and> (\<forall>i\<in>set (group_first (List.map_filter course_instructor (courses d))).
            \<exists>e. field_of i ''email'' = Some e \<and>
                find (\<lambda>p. fst p = e) (List.map_filter course_instructor (courses d)) = Some (e, i))
       \<and> l \<le> 100 \<and> (param = None \<longrightarrow> l = 4)"
proof (intro conjI impI ballI)
  have abs: "l \<noteq> 0" "\<bar>l\<bar> = l" "\<not> l < 0" "\<not> l \<le> 0" using assms(2) by simp_all
  let ?us = "filter is_instructor (users d)"
  let ?ps = "List.map_filter course_instructor (courses d)"
  show "get_instructors param d = (Inr (map instructor_card (take (nat l) ?us)), d)"
    if "?us \<noteq> []"
  proof -
    from that have "take (nat l) ?us \<noteq> []" using assms(2) by (cases ?us) (simp_all add: take_Cons')
    then show ?thesis
      using assms(1) abs by (simp add: get_instructors_def window_def slice0_def)
  qed
  show "get_instructors param d = (Inr (take (nat l) (group_first ?ps)), d)" if "?us = []"
    using that assms(1) abs by (simp add: get_instructors_def window_def)
  have keys: "\<forall>p\<in>set ?ps. Some (fst p) = Some (fst p) \<and> field_of (snd p) ''email'' = Some (fst p)"
    using map_filter_instructor_keys by blast
  have "distinct (map (\<lambda>i. the (field_of i ''email'')) (group_first ?ps))"
    by (rule group_first_distinct) (use keys in auto)
  then show "distinct (map (\<lambda>i. field_of i ''email'') (group_first ?ps))"
    by (metis (no_types, lifting) distinct_map inj_on_def)
  show "\<exists>e. field_of i ''email'' = Some e \<and> find (\<lambda>p. fst p = e) ?ps = Some (e, i)"
    if "i \<in> set (group_first ?ps)" for i
  proof -
    from group_first_is_first [OF that] obtain e where
      f: "find (\<lambda>p. fst p = e) ?ps = Some (e, i)" by blast
    then have "(e, i) \<in> set ?ps" using find_Some_set by fastforce
    with keys have "field_of i ''email'' = Some e" by fastforce
    with f show ?thesis by blast
  qed
  show "l \<le> 100" using assms(1) by (auto simp: capped_limit_def)
  show "l = 4" if "param = None"
  proof -
    have "parseInt ''4'' 10 = Some 4" by code_simp
    with that assms(1) show ?thesis by (simp add: capped_limit_def)
  qed
qed

text \<open>
  ``Returns a list derived from the courses'' fails at \<^verbatim>\<open>limit=0\<close> when no user is an
  instructor: the pipeline's
  \<^verbatim>\<open>$limit\<close> stage is rejected and the answer is 500 \<^verbatim>\<open>Server error\<close>, although the courses
  name two instructors.
\<close>

theorem instructors_zero_limit_counterexample:
  "get_instructors (Some ''0'') taught_db = (Inl (Reply 500 ''Server error''), taught_db)
   \<and> filter is_instructor (users taught_db) = []"
  by code_simp

text \<open>
  The theorem without a parameter on a collection with one instructor among the
  users, and at \<^verbatim>\<open>limit=7\<close> on three courses of two instructors and no instructor
  among the users.
\<close>

theorem instructors_from_users_or_courses_witness:
  "get_instructors None staff_db =
     (Inr [[(''name'', JStr ''M''), (''email'', JStr ''m@x.com''), (''photo'', JStr '''')]], staff_db)
   \<and> get_instructors (Some ''7'') taught_db =
     (Inr [[(''name'', JStr ''M''), (''email'', JStr ''m@x.com'')],
           [(''name'', JStr ''N''), (''email'', JStr ''n@x.com'')]], taught_db)"
proof -
  have l4: "capped_limit None ''4'' = Some 4" and l7: "capped_limit (Some ''7'') ''4'' = Some 7"
    by code_simp+
  have u: "filter is_instructor (users staff_db) = [mona]"
    and n: "filter is_instructor (users taught_db) = []"
    by code_simp+
  have c: "map instructor_card (take (nat 4) [mona]) =
      [[(''name'', JStr ''M''), (''email'', JStr ''m@x.com''), (''photo'', JStr '''')]]"
    by code_simp
  have g: "take (nat 7) (group_first (List.map_filter course_instructor (courses taught_db))) =
      [[(''name'', JStr ''M''), (''email'', JStr ''m@x.com'')],
       [(''name'', JStr ''N''), (''email'', JStr ''n@x.com'')]]"
    by code_simp
  show ?thesis
    using instructors_from_users_or_courses [OF l4, of staff_db]
      instructors_from_users_or_courses [OF l7, of taught_db] u n c g
    by simp
qed

end
